theory Spec2Isabelle
  imports Main
begin

section \<open>Text\<close>

text \<open>
  A \<open>QString\<close> is represented by its UTF-8 encoding, a list of bytes: the separators the
  program looks for (newline, the pipe, the slash, the dot) are ASCII, and a byte of that
  range never occurs inside the encoding of another character. With this representation
  \<open>QString::toUtf8\<close> and \<open>QString::fromUtf8\<close> of well-formed text are the identity.
  The texts of the user interface are Chinese; they are written out as their bytes.
\<close>

definition newline :: char where
  "newline = CHR 0x0A"

definition status_prefix :: string where
  "status_prefix = ''##STATUS##|''"

definition startsWith :: "string \<Rightarrow> string \<Rightarrow> bool" where
  \<comment> \<open>\<open>s.startsWith(p)\<close>\<close>
  "startsWith s p = (take (length p) s = p)"

fun split_on :: "char \<Rightarrow> string \<Rightarrow> string list" where
  \<comment> \<open>\<open>s.split(sep)\<close> with the default \<open>Qt::KeepEmptyParts\<close>. The result is never
      empty, so the first case below is never taken.\<close>
  "split_on sep [] = [[]]"
| "split_on sep (c # cs) =
     (if c = sep then [] # split_on sep cs
      else (case split_on sep cs of
              [] \<Rightarrow> [[c]]
            | part # parts \<Rightarrow> (c # part) # parts))"

definition split_skip_empty :: "char \<Rightarrow> string \<Rightarrow> string list" where
  \<comment> \<open>\<open>s.split(sep, Qt::SkipEmptyParts)\<close>\<close>
  "split_skip_empty sep s = filter (\<lambda>part. part \<noteq> []) (split_on sep s)"

definition fileName :: "string \<Rightarrow> string" where
  \<comment> \<open>\<open>QFileInfo(p).fileName()\<close>: what follows the last slash\<close>
  "fileName p = rev (takeWhile (\<lambda>c. c \<noteq> CHR ''/'') (rev p))"

definition suffix_of :: "string \<Rightarrow> string" where
  \<comment> \<open>\<open>QFileInfo(p).suffix()\<close>: what follows the last dot of the file name, if any\<close>
  "suffix_of p =
     (let n = fileName p in
      if CHR ''.'' \<in> set n then rev (takeWhile (\<lambda>c. c \<noteq> CHR ''.'') (rev n)) else [])"

definition lower_char :: "char \<Rightarrow> char" where
  "lower_char c =
     (if 65 \<le> (of_char c :: nat) \<and> (of_char c :: nat) \<le> 90
      then char_of ((of_char c :: nat) + 32) else c)"

definition toLower :: "string \<Rightarrow> string" where
  \<comment> \<open>\<open>s.toLower()\<close> on the letters A to Z, the only ones that decide a comparison with
      \<open>csv\<close> or \<open>xlsx\<close>\<close>
  "toLower s = map lower_char s"

function digits_of :: "nat \<Rightarrow> string" where
  "digits_of n =
     (if n < 10 then [char_of (48 + n)] else digits_of (n div 10) @ [char_of (48 + n mod 10)])"
  by pat_completeness auto
termination
  by (relation "measure id") auto

definition number_text :: "int \<Rightarrow> string" where
  \<comment> \<open>\<open>QString::number(n)\<close>\<close>
  "number_text n = (if n < 0 then CHR ''-'' # digits_of (nat (- n)) else digits_of (nat n))"

fun contains_text :: "string \<Rightarrow> string \<Rightarrow> bool" where
  \<comment> \<open>\<open>s.contains(t)\<close>\<close>
  "contains_text [] t = (t = [])"
| "contains_text (c # cs) t = (startsWith (c # cs) t \<or> contains_text cs t)"

subsection \<open>The texts of the user interface\<close>

definition txt_pending :: string where
  \<comment> \<open>Cell text of a row that has not been processed ("pending").\<close>
  "txt_pending = [CHR 0xE5, CHR 0xBE, CHR 0x85, CHR 0xE5, CHR 0xA4, CHR 0x84, CHR 0xE7,
     CHR 0x90, CHR 0x86]"

definition txt_processing :: string where
  \<comment> \<open>Cell text shown for the token PROCESSING.\<close>
  "txt_processing = [CHR 0xE6, CHR 0xAD, CHR 0xA3, CHR 0xE5, CHR 0x9C, CHR 0xA8, CHR 0xE5,
     CHR 0xA4, CHR 0x84, CHR 0xE7, CHR 0x90, CHR 0x86] @ ''...''"

definition txt_done :: string where
  \<comment> \<open>Cell text shown for the token SUCCESS.\<close>
  "txt_done = [CHR 0xE5, CHR 0xA4, CHR 0x84, CHR 0xE7, CHR 0x90, CHR 0x86, CHR 0xE5, CHR 0xAE,
     CHR 0x8C, CHR 0xE6, CHR 0x88, CHR 0x90]"

definition txt_failed :: string where
  \<comment> \<open>Cell text shown for the token FAILURE.\<close>
  "txt_failed = [CHR 0xE5, CHR 0xA4, CHR 0x84, CHR 0xE7, CHR 0x90, CHR 0x86, CHR 0xE5, CHR 0xA4,
     CHR 0xB1, CHR 0xE8, CHR 0xB4, CHR 0xA5]"

definition txt_skipped :: string where
  \<comment> \<open>Cell text shown for the token SKIPPED.\<close>
  "txt_skipped = [CHR 0xE5, CHR 0xB7, CHR 0xB2, CHR 0xE8, CHR 0xB7, CHR 0xB3, CHR 0xE8,
     CHR 0xBF, CHR 0x87]"

definition txt_unidentified :: string where
  \<comment> \<open>Cell text shown for the token UNIDENTIFIED.\<close>
  "txt_unidentified = [CHR 0xE6, CHR 0x9C, CHR 0xAA, CHR 0xE7, CHR 0x9F, CHR 0xA5, CHR 0xE5,
     CHR 0xB9, CHR 0xB3, CHR 0xE5, CHR 0x8F, CHR 0xB0]"

definition txt_cancelled :: string where
  \<comment> \<open>Cell text written over a processing row when the run is cancelled.\<close>
  "txt_cancelled = [CHR 0xE5, CHR 0xB7, CHR 0xB2, CHR 0xE5, CHR 0x8F, CHR 0x96, CHR 0xE6,
     CHR 0xB6, CHR 0x88]"

definition txt_confirm_title :: string where
  \<comment> \<open>Title of the mode-change question ("confirm").\<close>
  "txt_confirm_title = [CHR 0xE7, CHR 0xA1, CHR 0xAE, CHR 0xE8, CHR 0xAE, CHR 0xA4, CHR 0xE6,
     CHR 0x93, CHR 0x8D, CHR 0xE4, CHR 0xBD, CHR 0x9C]"

definition txt_confirm_text :: string where
  \<comment> \<open>Text of the mode-change question ("switching clears the list, continue?").\<close>
  "txt_confirm_text = [CHR 0xE5, CHR 0x88, CHR 0x87, CHR 0xE6, CHR 0x8D, CHR 0xA2, CHR 0xE6,
     CHR 0xA8, CHR 0xA1, CHR 0xE5, CHR 0xBC, CHR 0x8F, CHR 0xE5, CHR 0xB0, CHR 0x86, CHR 0xE6,
     CHR 0xB8, CHR 0x85, CHR 0xE7, CHR 0xA9, CHR 0xBA, CHR 0xE5, CHR 0xBD, CHR 0x93, CHR 0xE5,
     CHR 0x89, CHR 0x8D, CHR 0xE6, CHR 0x96, CHR 0x87, CHR 0xE4, CHR 0xBB, CHR 0xB6, CHR 0xE5,
     CHR 0x88, CHR 0x97, CHR 0xE8, CHR 0xA1, CHR 0xA8, CHR 0xEF, CHR 0xBC, CHR 0x8C, CHR 0xE6,
     CHR 0x98, CHR 0xAF, CHR 0xE5, CHR 0x90, CHR 0xA6, CHR 0xE7, CHR 0xBB, CHR 0xA7, CHR 0xE7,
     CHR 0xBB, CHR 0xAD, CHR 0xEF, CHR 0xBC, CHR 0x9F]"

definition txt_no_task_title :: string where
  \<comment> \<open>Title of the warning for an empty task list.\<close>
  "txt_no_task_title = [CHR 0xE6, CHR 0xB2, CHR 0xA1, CHR 0xE6, CHR 0x9C, CHR 0x89, CHR 0xE4,
     CHR 0xBB, CHR 0xBB, CHR 0xE5, CHR 0x8A, CHR 0xA1]"

definition txt_no_task_text :: string where
  \<comment> \<open>Text of the warning for an empty task list.\<close>
  "txt_no_task_text = [CHR 0xE8, CHR 0xAF, CHR 0xB7, CHR 0xE8, CHR 0x87, CHR 0xB3, CHR 0xE5,
     CHR 0xB0, CHR 0x91, CHR 0xE5, CHR 0x8B, CHR 0xBE, CHR 0xE9, CHR 0x80, CHR 0x89, CHR 0xE4,
     CHR 0xB8, CHR 0x80, CHR 0xE4, CHR 0xB8, CHR 0xAA, CHR 0xE8, CHR 0xA6, CHR 0x81, CHR 0xE5,
     CHR 0xA4, CHR 0x84, CHR 0xE7, CHR 0x90, CHR 0x86, CHR 0xE7, CHR 0x9A, CHR 0x84, CHR 0xE6,
     CHR 0x96, CHR 0x87, CHR 0xE4, CHR 0xBB, CHR 0xB6, CHR 0xEF, CHR 0xBC, CHR 0x81]"

definition txt_no_output_title :: string where
  \<comment> \<open>Title of the warning for a missing output folder.\<close>
  "txt_no_output_title = [CHR 0xE8, CHR 0xBE, CHR 0x93, CHR 0xE5, CHR 0x87, CHR 0xBA, CHR 0xE6,
     CHR 0x9C, CHR 0xAA, CHR 0xE6, CHR 0x8C, CHR 0x87, CHR 0xE5, CHR 0xAE, CHR 0x9A]"

definition txt_no_output_text :: string where
  \<comment> \<open>Text of the warning for a missing output folder.\<close>
  "txt_no_output_text = [CHR 0xE8, CHR 0xAF, CHR 0xB7, CHR 0xE6, CHR 0x8C, CHR 0x87, CHR 0xE5,
     CHR 0xAE, CHR 0x9A, CHR 0xE4, CHR 0xB8, CHR 0x80, CHR 0xE4, CHR 0xB8, CHR 0xAA, CHR 0xE8,
     CHR 0xBE, CHR 0x93, CHR 0xE5, CHR 0x87, CHR 0xBA, CHR 0xE6, CHR 0x96, CHR 0x87, CHR 0xE4,
     CHR 0xBB, CHR 0xB6, CHR 0xE5, CHR 0xA4, CHR 0xB9, CHR 0xEF, CHR 0xBC, CHR 0x8C, CHR 0xE6,
     CHR 0x88, CHR 0x96, CHR 0xE5, CHR 0x8B, CHR 0xBE, CHR 0xE9, CHR 0x80, CHR 0x89, CHR 0xE2,
     CHR 0x80, CHR 0x9C, CHR 0xE8, CHR 0xBE, CHR 0x93, CHR 0xE5, CHR 0x87, CHR 0xBA, CHR 0xE5,
     CHR 0x88, CHR 0xB0, CHR 0xE6, CHR 0xBA, CHR 0x90, CHR 0xE6, CHR 0x96, CHR 0x87, CHR 0xE4,
     CHR 0xBB, CHR 0xB6, CHR 0xE8, CHR 0xB7, CHR 0xAF, CHR 0xE5, CHR 0xBE, CHR 0x84, CHR 0xE2,
     CHR 0x80, CHR 0x9D, CHR 0xEF, CHR 0xBC, CHR 0x81]"

definition txt_start_failed_title :: string where
  \<comment> \<open>Title of the error box for a failed launch.\<close>
  "txt_start_failed_title = [CHR 0xE5, CHR 0x90, CHR 0xAF, CHR 0xE5, CHR 0x8A, CHR 0xA8,
     CHR 0xE5, CHR 0xA4, CHR 0xB1, CHR 0xE8, CHR 0xB4, CHR 0xA5]"

definition txt_start_failed_text :: string where
  \<comment> \<open>Text of the error box for a failed launch.\<close>
  "txt_start_failed_text = [CHR 0xE6, CHR 0x97, CHR 0xA0, CHR 0xE6, CHR 0xB3, CHR 0x95,
     CHR 0xE5, CHR 0x90, CHR 0xAF, CHR 0xE5, CHR 0x8A, CHR 0xA8, CHR 0xE5, CHR 0x90, CHR 0x8E,
     CHR 0xE7, CHR 0xAB, CHR 0xAF, CHR 0xE5, CHR 0xBC, CHR 0x95, CHR 0xE6, CHR 0x93, CHR 0x8E,
     CHR 0xE3, CHR 0x80, CHR 0x82, CHR 0x0A, CHR 0xE8, CHR 0xAF, CHR 0xB7, CHR 0xE6, CHR 0xA3,
     CHR 0x80, CHR 0xE6, CHR 0x9F, CHR 0xA5, CHR 0xE7, CHR 0xA8, CHR 0x8B, CHR 0xE5, CHR 0xBA,
     CHR 0x8F, CHR 0xE7, CHR 0x9B, CHR 0xAE, CHR 0xE5, CHR 0xBD, CHR 0x95, CHR 0xE4, CHR 0xB8,
     CHR 0x8B] @ '' '' @ [CHR 0x27] @ ''backend_engine'' @ [CHR 0x27] @ '' '' @ [CHR 0xE6,
     CHR 0x96, CHR 0x87, CHR 0xE4, CHR 0xBB, CHR 0xB6, CHR 0xE5, CHR 0xA4, CHR 0xB9, CHR 0xE5,
     CHR 0x8F, CHR 0x8A, CHR 0xE5, CHR 0x85, CHR 0xB6, CHR 0xE4, CHR 0xB8, CHR 0xAD, CHR 0xE7,
     CHR 0x9A, CHR 0x84] @ '' '' @ [CHR 0x27] @ ''main_processor.exe'' @ [CHR 0x27] @ '' ''
     @ [CHR 0xE6, CHR 0x98, CHR 0xAF, CHR 0xE5, CHR 0x90, CHR 0xA6, CHR 0xE5, CHR 0xAD,
     CHR 0x98, CHR 0xE5, CHR 0x9C, CHR 0xA8, CHR 0xE3, CHR 0x80, CHR 0x82]"

definition txt_log_begin :: string where
  \<comment> \<open>First log line of a run.\<close>
  "txt_log_begin = ''--- '' @ [CHR 0xE5, CHR 0xBC, CHR 0x80, CHR 0xE5, CHR 0xA7, CHR 0x8B,
     CHR 0xE5, CHR 0xA4, CHR 0x84, CHR 0xE7, CHR 0x90, CHR 0x86] @ '' ---''"

definition txt_log_cancelled :: string where
  \<comment> \<open>Log paragraph of a cancelled run.\<close>
  "txt_log_cancelled = [CHR 0x0A] @ ''--- '' @ [CHR 0xE5, CHR 0xA4, CHR 0x84, CHR 0xE7,
     CHR 0x90, CHR 0x86, CHR 0xE5, CHR 0xB7, CHR 0xB2, CHR 0xE5, CHR 0x8F, CHR 0x96, CHR 0xE6,
     CHR 0xB6, CHR 0x88] @ '' ---''"

definition txt_log_success :: string where
  \<comment> \<open>Log paragraph of a successful run.\<close>
  "txt_log_success = [CHR 0x0A] @ ''--- '' @ [CHR 0xE5, CHR 0xA4, CHR 0x84, CHR 0xE7, CHR 0x90,
     CHR 0x86, CHR 0xE6, CHR 0x88, CHR 0x90, CHR 0xE5, CHR 0x8A, CHR 0x9F, CHR 0xEF, CHR 0xBC,
     CHR 0x81] @ '' ---''"

definition txt_log_failure :: string where
  \<comment> \<open>Log paragraph of a failed run.\<close>
  "txt_log_failure = [CHR 0x0A] @ ''--- '' @ [CHR 0xE5, CHR 0xA4, CHR 0x84, CHR 0xE7, CHR 0x90,
     CHR 0x86, CHR 0xE5, CHR 0xA4, CHR 0xB1, CHR 0xE8, CHR 0xB4, CHR 0xA5, CHR 0xEF, CHR 0xBC,
     CHR 0x81] @ '' ---''"

definition txt_log_exit_code :: string where
  \<comment> \<open>Log text in front of the exit code of a failed run.\<close>
  "txt_log_exit_code = [CHR 0xE5, CHR 0x90, CHR 0x8E, CHR 0xE7, CHR 0xAB, CHR 0xAF, CHR 0xE8,
     CHR 0xBF, CHR 0x9B, CHR 0xE7, CHR 0xA8, CHR 0x8B, CHR 0xE5, CHR 0xBC, CHR 0x82, CHR 0xE5,
     CHR 0xB8, CHR 0xB8, CHR 0xE9, CHR 0x80, CHR 0x80, CHR 0xE5, CHR 0x87, CHR 0xBA, CHR 0xEF,
     CHR 0xBC, CHR 0x8C, CHR 0xE9, CHR 0x94, CHR 0x99, CHR 0xE8, CHR 0xAF, CHR 0xAF, CHR 0xE7,
     CHR 0xA0, CHR 0x81] @ '': ''"

definition txt_log_stderr :: string where
  \<comment> \<open>Log marker in front of the worker's error output.\<close>
  "txt_log_stderr = [CHR 0xE3, CHR 0x80, CHR 0x90, CHR 0xE9, CHR 0x94, CHR 0x99, CHR 0xE8,
     CHR 0xAF, CHR 0xAF, CHR 0xE3, CHR 0x80, CHR 0x91] @ '': ''"

definition txt_bar_cancelled :: string where
  \<comment> \<open>Status bar: the run was cancelled by the user.\<close>
  "txt_bar_cancelled = [CHR 0xE5, CHR 0xA4, CHR 0x84, CHR 0xE7, CHR 0x90, CHR 0x86, CHR 0xE5,
     CHR 0xB7, CHR 0xB2, CHR 0xE7, CHR 0x94, CHR 0xB1, CHR 0xE7, CHR 0x94, CHR 0xA8, CHR 0xE6,
     CHR 0x88, CHR 0xB7, CHR 0xE5, CHR 0x8F, CHR 0x96, CHR 0xE6, CHR 0xB6, CHR 0x88, CHR 0xE3,
     CHR 0x80, CHR 0x82]"

definition txt_bar_success :: string where
  \<comment> \<open>Status bar: the run succeeded.\<close>
  "txt_bar_success = [CHR 0xE5, CHR 0xA4, CHR 0x84, CHR 0xE7, CHR 0x90, CHR 0x86, CHR 0xE6,
     CHR 0x88, CHR 0x90, CHR 0xE5, CHR 0x8A, CHR 0x9F, CHR 0xEF, CHR 0xBC, CHR 0x81]"

definition txt_bar_failure :: string where
  \<comment> \<open>Status bar: the run failed.\<close>
  "txt_bar_failure = [CHR 0xE5, CHR 0xA4, CHR 0x84, CHR 0xE7, CHR 0x90, CHR 0x86, CHR 0xE5,
     CHR 0xA4, CHR 0xB1, CHR 0xE8, CHR 0xB4, CHR 0xA5, CHR 0xEF, CHR 0xBC, CHR 0x81, CHR 0xE8,
     CHR 0xAF, CHR 0xA6, CHR 0xE6, CHR 0x83, CHR 0x85, CHR 0xE8, CHR 0xA7, CHR 0x81, CHR 0xE6,
     CHR 0x97, CHR 0xA5, CHR 0xE5, CHR 0xBF, CHR 0x97, CHR 0xE5, CHR 0x8C, CHR 0xBA, CHR 0xE3,
     CHR 0x80, CHR 0x82]"

definition txt_bar_scanning :: string where
  \<comment> \<open>Status bar: a folder is being scanned.\<close>
  "txt_bar_scanning = [CHR 0xE6, CHR 0xAD, CHR 0xA3, CHR 0xE5, CHR 0x9C, CHR 0xA8, CHR 0xE6,
     CHR 0x89, CHR 0xAB, CHR 0xE6, CHR 0x8F, CHR 0x8F, CHR 0xE6, CHR 0x96, CHR 0x87, CHR 0xE4,
     CHR 0xBB, CHR 0xB6, CHR 0xE5, CHR 0xA4, CHR 0xB9, CHR 0xEF, CHR 0xBC, CHR 0x8C, CHR 0xE8,
     CHR 0xAF, CHR 0xB7, CHR 0xE7, CHR 0xA8, CHR 0x8D, CHR 0xE5, CHR 0x80, CHR 0x99] @ ''...''"

definition txt_bar_scanned :: string where
  \<comment> \<open>Status bar: the scan is finished.\<close>
  "txt_bar_scanned = [CHR 0xE6, CHR 0x89, CHR 0xAB, CHR 0xE6, CHR 0x8F, CHR 0x8F, CHR 0xE5,
     CHR 0xAE, CHR 0x8C, CHR 0xE6, CHR 0x88, CHR 0x90, CHR 0xE3, CHR 0x80, CHR 0x82]"

definition txt_btn_cancel :: string where
  \<comment> \<open>Text of the start button during a run ("cancel").\<close>
  "txt_btn_cancel = [CHR 0xE5, CHR 0x8F, CHR 0x96, CHR 0xE6, CHR 0xB6, CHR 0x88, CHR 0xE5,
     CHR 0xA4, CHR 0x84, CHR 0xE7, CHR 0x90, CHR 0x86]"

definition txt_btn_start :: string where
  \<comment> \<open>Text of the start button outside a run ("start").\<close>
  "txt_btn_start = [CHR 0xE5, CHR 0xBC, CHR 0x80, CHR 0xE5, CHR 0xA7, CHR 0x8B, CHR 0xE5,
     CHR 0xA4, CHR 0x84, CHR 0xE7, CHR 0x90, CHR 0x86]"

definition txt_hdr_status :: string where
  \<comment> \<open>Header of column 1.\<close>
  "txt_hdr_status = [CHR 0xE7, CHR 0x8A, CHR 0xB6, CHR 0xE6, CHR 0x80, CHR 0x81]"

definition txt_hdr_name :: string where
  \<comment> \<open>Header of column 2.\<close>
  "txt_hdr_name = [CHR 0xE6, CHR 0x96, CHR 0x87, CHR 0xE4, CHR 0xBB, CHR 0xB6, CHR 0xE5,
     CHR 0x90, CHR 0x8D]"

definition txt_hdr_path_dir :: string where
  \<comment> \<open>Header of column 3 in directory mode.\<close>
  "txt_hdr_path_dir = [CHR 0xE6, CHR 0x96, CHR 0x87, CHR 0xE4, CHR 0xBB, CHR 0xB6, CHR 0xE8,
     CHR 0xB7, CHR 0xAF, CHR 0xE5, CHR 0xBE, CHR 0x84] @ ''('' @ [CHR 0xE6, CHR 0x8C, CHR 0x87,
     CHR 0xE5, CHR 0xAE, CHR 0x9A, CHR 0xE8, CHR 0xBE, CHR 0x93, CHR 0xE5, CHR 0x85, CHR 0xA5,
     CHR 0xE6, CHR 0x96, CHR 0x87, CHR 0xE4, CHR 0xBB, CHR 0xB6, CHR 0xE5, CHR 0xA4, CHR 0xB9,
     CHR 0xE6, CHR 0xA8, CHR 0xA1, CHR 0xE5, CHR 0xBC, CHR 0x8F, CHR 0xE4, CHR 0xB8, CHR 0x8B,
     CHR 0xE4, CHR 0xB8, CHR 0x8D, CHR 0xE6, CHR 0x94, CHR 0xAF, CHR 0xE6, CHR 0x8C, CHR 0x81,
     CHR 0xE6, CHR 0x8B, CHR 0x96, CHR 0xE5, CHR 0x85, CHR 0xA5] @ '')''"

definition txt_hdr_path_manual :: string where
  \<comment> \<open>Header of column 3 in manual mode.\<close>
  "txt_hdr_path_manual = [CHR 0xE6, CHR 0x96, CHR 0x87, CHR 0xE4, CHR 0xBB, CHR 0xB6, CHR 0xE8,
     CHR 0xB7, CHR 0xAF, CHR 0xE5, CHR 0xBE, CHR 0x84] @ ''('' @ [CHR 0xE5, CHR 0x8F, CHR 0xAF,
     CHR 0xE6, CHR 0x8B, CHR 0x96, CHR 0xE5, CHR 0x85, CHR 0xA5, CHR 0xE6, CHR 0x96, CHR 0x87,
     CHR 0xE4, CHR 0xBB, CHR 0xB6] @ ''/'' @ [CHR 0xE6, CHR 0x96, CHR 0x87, CHR 0xE4, CHR 0xBB,
     CHR 0xB6, CHR 0xE5, CHR 0xA4, CHR 0xB9] @ '')''"
section \<open>Data\<close>

text \<open>
  A row of the file table: the check box of column 0, the status cell of column 1 with its
  tool tip, the file name of column 2 and the path of column 3. Rows are created by
  \<open>addFileToList\<close> only, which fills every cell, so a row always has all of them.
\<close>

record row =
  checkBox_checked :: bool
  status_text :: string
  status_toolTip :: string
  name_text :: string
  path_text :: string

datatype ExitStatus = NormalExit | CrashExit

datatype ProcessError = FailedToStart | Crashed | Timedout | ReadError | WriteError | UnknownError

datatype ProcessState = NotRunning | Starting | Running

text \<open>
  The \<open>QProcess\<close> object behind \<open>m_process\<close>: what \<open>start\<close> was given, the dynamic property
  \<open>tasks\<close>, and what has been done to the input stream of the worker.
\<close>

record qprocess =
  program :: string
  arguments :: "string list"
  environment_inserted :: "(string \<times> string) list"
  tasks_property :: "string list"
  process_state :: ProcessState
  stdin_written :: string
  write_channel_closed :: bool
  kill_called :: bool

datatype dialog =
    Question string string
  | Warning string string
  | Critical string string

text \<open>The enabled flags of the controls the program switches.\<close>

record controls =
  useDirectoryModeCheckBox_enabled :: bool
  outputToSourceCheckBox_enabled :: bool
  conflictComboBox_enabled :: bool
  browseInputDirButton_enabled :: bool
  inputDirPathLineEdit_enabled :: bool
  refreshDirButton_enabled :: bool
  addFilesButton_enabled :: bool
  table_acceptDrops :: bool
  removeSelectedButton_enabled :: bool
  selectAllButton_enabled :: bool
  invertSelectionButton_enabled :: bool
  startProcessButton_enabled :: bool
  outputPathLineEdit_enabled :: bool
  browseOutputButton_enabled :: bool

text \<open>
  The main window: the members of the class and the contents of the widgets. The timer is
  the clock reading (in milliseconds) of its last \<open>start\<close> or \<open>restart\<close>; the message boxes
  the program has shown are kept, in order, in \<open>dialogs_shown\<close>.
\<close>

record mainwindow =
  m_process :: "qprocess option"
  m_isProcessing :: bool
  m_fileList :: "string list"
  m_lastSelectedPath :: string
  m_dontAskOnModeChange :: bool
  m_modeChangeDebounceTimer :: int
  table_rows :: "row list"
  header_labels :: "string list"
  useDirectoryMode_checked :: bool
  outputToSource_checked :: bool
  outputPath_text :: string
  inputDirPath_text :: string
  conflict_index :: int
  plainText :: string
  statusBar_message :: string
  startProcessButton_text :: string
  enabled :: controls
  dialogs_shown :: "dialog list"

text \<open>
  What the program asks of its surroundings: the directory of the executable, the native
  directory separator, and the file system as \<open>QDir\<close>, \<open>QDirIterator\<close> and \<open>QFileInfo\<close>
  report it. \<open>dir_files d\<close> is what the iterator over \<open>d\<close> yields with the name filters
  \<open>*.csv\<close> and \<open>*.xlsx\<close>, files only, subdirectories included.
\<close>

record environment =
  applicationDirPath :: string
  native_separator :: char
  dir_exists :: "string \<Rightarrow> bool"
  dir_files :: "string \<Rightarrow> string list"
  info_isDir :: "string \<Rightarrow> bool"
  info_isFile :: "string \<Rightarrow> bool"
  info_absolutePath :: "string \<Rightarrow> string"
  homePath :: string

text \<open>The configuration file: a key that is missing is \<open>None\<close>.\<close>

record settings =
  paths_outputPath :: "string option"
  paths_inputPath :: "string option"
  paths_lastSelectedPath :: "string option"
  options_conflictIndex :: "int option"
  options_outputToSource :: "bool option"
  options_useDirectoryMode :: "bool option"
  options_dontAskOnModeChange :: "bool option"

text \<open>The answer to the mode-change question: the value of \<open>exec\<close> (the index of the button,
  1 for "no") and whether the "do not ask again" box was ticked.\<close>

record answer =
  exec_result :: int
  dontAskAgain_checked :: bool

record qurl =
  isLocalFile :: bool
  toLocalFile :: string

section \<open>The file table and the controls\<close>

definition updateActionButtonStates :: "mainwindow \<Rightarrow> mainwindow" where
  "updateActionButtonStates st =
     (let hasFiles = (table_rows st \<noteq> []) in
      st\<lparr>enabled := (enabled st)\<lparr>
        removeSelectedButton_enabled := hasFiles,
        selectAllButton_enabled := hasFiles,
        invertSelectionButton_enabled := hasFiles,
        startProcessButton_enabled := hasFiles\<rparr>\<rparr>)"

definition updateUiForMode :: "bool \<Rightarrow> mainwindow \<Rightarrow> mainwindow" where
  "updateUiForMode isDirectoryMode st =
     st\<lparr>enabled := (enabled st)\<lparr>
          browseInputDirButton_enabled := isDirectoryMode,
          inputDirPathLineEdit_enabled := isDirectoryMode,
          refreshDirButton_enabled := isDirectoryMode,
          addFilesButton_enabled := \<not> isDirectoryMode,
          table_acceptDrops := \<not> isDirectoryMode\<rparr>,
        header_labels :=
          [[], txt_hdr_status, txt_hdr_name,
           if isDirectoryMode then txt_hdr_path_dir else txt_hdr_path_manual]\<rparr>"

definition updateUiForProcessingState :: "bool \<Rightarrow> mainwindow \<Rightarrow> mainwindow" where
  "updateUiForProcessingState isProcessing st =
     (let dirMode = useDirectoryMode_checked st;
          hasFiles = (table_rows st \<noteq> []);
          e1 = (enabled st)\<lparr>
            useDirectoryModeCheckBox_enabled := \<not> isProcessing,
            outputToSourceCheckBox_enabled := \<not> isProcessing,
            conflictComboBox_enabled := \<not> isProcessing,
            browseInputDirButton_enabled := (\<not> isProcessing \<and> dirMode),
            inputDirPathLineEdit_enabled := (\<not> isProcessing \<and> dirMode),
            refreshDirButton_enabled := (\<not> isProcessing \<and> dirMode),
            addFilesButton_enabled := (\<not> isProcessing \<and> \<not> dirMode),
            table_acceptDrops := (\<not> isProcessing \<and> \<not> dirMode),
            removeSelectedButton_enabled := (\<not> isProcessing \<and> hasFiles),
            selectAllButton_enabled := (\<not> isProcessing \<and> hasFiles),
            invertSelectionButton_enabled := (\<not> isProcessing \<and> hasFiles)\<rparr>;
          e2 = (if \<not> outputToSource_checked st
                then e1\<lparr>outputPathLineEdit_enabled := \<not> isProcessing,
                        browseOutputButton_enabled := \<not> isProcessing\<rparr>
                else e1)
      in st\<lparr>m_isProcessing := isProcessing,
            startProcessButton_text := (if isProcessing then txt_btn_cancel else txt_btn_start),
            enabled := e2\<rparr>)"

definition on_outputToSourceCheckBox_stateChanged :: "int \<Rightarrow> mainwindow \<Rightarrow> mainwindow" where
  \<comment> \<open>\<open>Qt::Unchecked\<close> is 0\<close>
  "on_outputToSourceCheckBox_stateChanged state st =
     (let en = (state = 0) in
      st\<lparr>enabled := (enabled st)\<lparr>outputPathLineEdit_enabled := en,
                                    browseOutputButton_enabled := en\<rparr>\<rparr>)"

definition checkState :: "bool \<Rightarrow> int" where
  \<comment> \<open>\<open>Qt::Unchecked\<close> is 0 and \<open>Qt::Checked\<close> is 2\<close>
  "checkState b = (if b then 2 else 0)"

definition new_row :: "string \<Rightarrow> row" where
  \<comment> \<open>the cells \<open>addFileToList\<close> creates: a ticked check box, the pending status, the file
      name and the path\<close>
  "new_row filePath =
     \<lparr>checkBox_checked = True, status_text = txt_pending, status_toolTip = [],
      name_text = fileName filePath, path_text = filePath\<rparr>"

definition addFileToList :: "string \<Rightarrow> mainwindow \<Rightarrow> mainwindow" where
  "addFileToList filePath st =
     (if filePath \<in> set (m_fileList st) then st
      else updateActionButtonStates
             (st\<lparr>m_fileList := m_fileList st @ [filePath],
                 table_rows := table_rows st @ [new_row filePath]\<rparr>))"

definition on_addFilesButton_clicked ::
  "environment \<Rightarrow> string list \<Rightarrow> mainwindow \<Rightarrow> mainwindow" where
  \<comment> \<open>\<open>files\<close> is what the file dialog returned, empty when it was cancelled\<close>
  "on_addFilesButton_clicked env files st =
     (case files of
        [] \<Rightarrow> st
      | first # _ \<Rightarrow>
          fold addFileToList files (st\<lparr>m_lastSelectedPath := info_absolutePath env first\<rparr>))"

definition drop_url :: "environment \<Rightarrow> qurl \<Rightarrow> mainwindow \<Rightarrow> mainwindow" where
  \<comment> \<open>the body of the loop of \<open>dropEvent\<close>\<close>
  "drop_url env url st =
     (if isLocalFile url then
        (let path = toLocalFile url in
         if info_isDir env path then fold addFileToList (dir_files env path) st
         else if info_isFile env path then
           (if toLower (suffix_of path) = ''csv'' \<or> toLower (suffix_of path) = ''xlsx''
            then addFileToList path st else st)
         else st)
      else st)"

definition dropEvent :: "environment \<Rightarrow> qurl list \<Rightarrow> mainwindow \<Rightarrow> mainwindow" where
  "dropEvent env urls st =
     (if useDirectoryMode_checked st \<or> m_isProcessing st then st
      else fold (drop_url env) urls st)"

fun remove_rows_from :: "nat \<Rightarrow> mainwindow \<Rightarrow> mainwindow" where
  \<comment> \<open>the loop of \<open>on_removeSelectedButton_clicked\<close>, from the last row to the first:
      \<open>remove_rows_from (Suc i)\<close> is the loop at index \<open>i\<close>\<close>
  "remove_rows_from 0 st = st"
| "remove_rows_from (Suc i) st =
     remove_rows_from i
       (if checkBox_checked (table_rows st ! i) then
          st\<lparr>m_fileList := removeAll (path_text (table_rows st ! i)) (m_fileList st),
             table_rows := take i (table_rows st) @ drop (Suc i) (table_rows st)\<rparr>
        else st)"

definition on_removeSelectedButton_clicked :: "mainwindow \<Rightarrow> mainwindow" where
  "on_removeSelectedButton_clicked st =
     updateActionButtonStates (remove_rows_from (length (table_rows st)) st)"

definition on_selectAllButton_clicked :: "mainwindow \<Rightarrow> mainwindow" where
  "on_selectAllButton_clicked st =
     (let shouldSelectAll = (\<exists>r \<in> set (table_rows st). \<not> checkBox_checked r) in
      st\<lparr>table_rows := map (\<lambda>r. r\<lparr>checkBox_checked := shouldSelectAll\<rparr>) (table_rows st)\<rparr>)"

definition on_invertSelectionButton_clicked :: "mainwindow \<Rightarrow> mainwindow" where
  "on_invertSelectionButton_clicked st =
     st\<lparr>table_rows :=
          map (\<lambda>r. r\<lparr>checkBox_checked := \<not> checkBox_checked r\<rparr>) (table_rows st)\<rparr>"

definition scanAndPopulateFiles :: "environment \<Rightarrow> string \<Rightarrow> mainwindow \<Rightarrow> mainwindow" where
  \<comment> \<open>the wait cursor is left out, and \<open>processEvents\<close> is taken to find no pending event\<close>
  "scanAndPopulateFiles env dirPath st =
     (if dirPath = [] \<or> \<not> dir_exists env dirPath then
        updateActionButtonStates (st\<lparr>m_fileList := [], table_rows := []\<rparr>)
      else
        updateActionButtonStates
          ((fold addFileToList (dir_files env dirPath)
              (st\<lparr>m_fileList := [], table_rows := [],
                  statusBar_message := txt_bar_scanning\<rparr>))
           \<lparr>statusBar_message := txt_bar_scanned\<rparr>))"

definition on_browseInputDirButton_clicked ::
  "environment \<Rightarrow> string \<Rightarrow> mainwindow \<Rightarrow> mainwindow" where
  \<comment> \<open>\<open>dir\<close> is what the directory dialog returned, empty when it was cancelled\<close>
  "on_browseInputDirButton_clicked env dir st =
     (if dir \<noteq> [] then
        scanAndPopulateFiles env dir (st\<lparr>inputDirPath_text := dir, m_lastSelectedPath := dir\<rparr>)
      else st)"

definition on_inputDirPathLineEdit_editingFinished ::
  "environment \<Rightarrow> mainwindow \<Rightarrow> mainwindow" where
  "on_inputDirPathLineEdit_editingFinished env st =
     scanAndPopulateFiles env (inputDirPath_text st) st"

definition on_refreshDirButton_clicked :: "environment \<Rightarrow> mainwindow \<Rightarrow> mainwindow" where
  "on_refreshDirButton_clicked env st = scanAndPopulateFiles env (inputDirPath_text st) st"

definition on_browseOutputButton_clicked :: "string \<Rightarrow> mainwindow \<Rightarrow> mainwindow" where
  "on_browseOutputButton_clicked dir st =
     (if dir \<noteq> [] then st\<lparr>outputPath_text := dir, m_lastSelectedPath := dir\<rparr> else st)"

section \<open>Switching the mode\<close>

definition DEBOUNCE_INTERVAL_MS :: int where
  "DEBOUNCE_INTERVAL_MS = 300"

definition switch_mode :: "environment \<Rightarrow> bool \<Rightarrow> mainwindow \<Rightarrow> mainwindow" where
  \<comment> \<open>what both branches of \<open>handleModeChangeRequest\<close> do after the check box is set\<close>
  "switch_mode env intendedState st =
     updateActionButtonStates
       (let st1 = updateUiForMode intendedState st in
        if intendedState then scanAndPopulateFiles env (inputDirPath_text st1) st1 else st1)"

definition handleModeChangeRequest ::
  "environment \<Rightarrow> int \<Rightarrow> answer \<Rightarrow> mainwindow \<Rightarrow> mainwindow" where
  \<comment> \<open>\<open>now\<close> is the clock reading at the click; \<open>ans\<close> is the user's answer, used only when
      the question is asked\<close>
  "handleModeChangeRequest env now ans st =
     (if now - m_modeChangeDebounceTimer st < DEBOUNCE_INTERVAL_MS then st
      else
        let st1 = st\<lparr>m_modeChangeDebounceTimer := now\<rparr>;
            intendedState = (\<not> useDirectoryMode_checked st1)
        in
        if table_rows st1 = [] then
          switch_mode env intendedState (st1\<lparr>useDirectoryMode_checked := intendedState\<rparr>)
        else
          let asked = (\<not> m_dontAskOnModeChange st1);
              st2 = (if asked
                     then st1\<lparr>dialogs_shown := dialogs_shown st1 @
                                [Question txt_confirm_title txt_confirm_text]\<rparr>
                     else st1)
          in
          if asked \<and> exec_result ans = 1 then st2
          else
            let st3 = (if asked \<and> dontAskAgain_checked ans
                       then st2\<lparr>m_dontAskOnModeChange := True\<rparr> else st2)
            in switch_mode env intendedState
                 (st3\<lparr>useDirectoryMode_checked := intendedState,
                      m_fileList := [], table_rows := []\<rparr>))"

section \<open>The worker process\<close>

definition appendPlainText :: "string \<Rightarrow> string \<Rightarrow> string" where
  \<comment> \<open>\<open>QPlainTextEdit::appendPlainText\<close>: a new paragraph at the end of the document\<close>
  "appendPlainText text doc = (if doc = [] then text else doc @ [newline] @ text)"

definition toNativeSeparators :: "char \<Rightarrow> string \<Rightarrow> string" where
  "toNativeSeparators sep p = map (\<lambda>c. if c = CHR ''/'' then sep else c) p"

definition programPath :: "environment \<Rightarrow> string" where
  "programPath env =
     toNativeSeparators (native_separator env)
       (applicationDirPath env @ ''/backend_engine/backend_engine.exe'')"

definition conflictPolicy :: "int \<Rightarrow> string" where
  "conflictPolicy index =
     (if index = 0 then ''rename'' else if index = 1 then ''overwrite''
      else if index = 2 then ''skip'' else ''skip'')"

definition checked_tasks :: "mainwindow \<Rightarrow> string list" where
  \<comment> \<open>the first loop of \<open>on_startProcessButton_clicked\<close>: the paths of the ticked rows\<close>
  "checked_tasks st = map path_text (filter checkBox_checked (table_rows st))"

definition on_startProcessButton_clicked :: "environment \<Rightarrow> mainwindow \<Rightarrow> mainwindow" where
  "on_startProcessButton_clicked env st =
     (if m_isProcessing st then
        (case m_process st of
           None \<Rightarrow> st
         | Some p \<Rightarrow> st\<lparr>m_process := Some (p\<lparr>kill_called := True\<rparr>)\<rparr>)
      else
        let tasks = checked_tasks st in
        if tasks = [] then
          st\<lparr>dialogs_shown := dialogs_shown st @ [Warning txt_no_task_title txt_no_task_text]\<rparr>
        else if \<not> outputToSource_checked st \<and> outputPath_text st = [] then
          st\<lparr>dialogs_shown := dialogs_shown st @
               [Warning txt_no_output_title txt_no_output_text]\<rparr>
        else
          let st1 = updateUiForProcessingState True st;
              st2 = st1\<lparr>plainText := appendPlainText txt_log_begin []\<rparr>;
              args = [''--on-conflict'', conflictPolicy (conflict_index st2)] @
                     (if \<not> outputToSource_checked st2
                      then [''--output-dir'', outputPath_text st2] else [])
          in st2\<lparr>m_process := Some
                  \<lparr>program = programPath env, arguments = args,
                   environment_inserted = [(''PYTHONIOENCODING'', ''utf-8'')],
                   tasks_property = tasks, process_state = Starting,
                   stdin_written = [], write_channel_closed = False,
                   kill_called = False\<rparr>\<rparr>)"

text \<open>
  The handlers of the signals of the process. \<open>onProcessStarted\<close> and \<open>onProcessFinished\<close>
  dereference \<open>m_process\<close> without a test: with a null pointer the result is \<open>None\<close>.
\<close>

definition onProcessStarted :: "mainwindow \<Rightarrow> mainwindow option" where
  "onProcessStarted st =
     (case m_process st of
        None \<Rightarrow> None
      | Some p \<Rightarrow>
          let tasks = tasks_property p in
          if tasks \<noteq> [] then
            Some (st\<lparr>m_process := Some
              (p\<lparr>stdin_written := stdin_written p @ concat (map (\<lambda>task. task @ [newline]) tasks),
                 write_channel_closed := True\<rparr>)\<rparr>)
          else Some st)"

definition cancel_processing_rows :: "row list \<Rightarrow> row list" where
  \<comment> \<open>the loop of the branch of \<open>onProcessFinished\<close> for \<open>CrashExit\<close>\<close>
  "cancel_processing_rows rows =
     map (\<lambda>r. if status_text r = txt_processing then r\<lparr>status_text := txt_cancelled\<rparr> else r)
       rows"

definition onProcessFinished :: "int \<Rightarrow> ExitStatus \<Rightarrow> mainwindow \<Rightarrow> mainwindow option" where
  "onProcessFinished exitCode exitStatus st =
     (let st1 =
        (if exitStatus = CrashExit then
           st\<lparr>statusBar_message := txt_bar_cancelled,
              plainText := appendPlainText txt_log_cancelled (plainText st),
              table_rows := cancel_processing_rows (table_rows st)\<rparr>
         else if exitCode = 0 then
           st\<lparr>statusBar_message := txt_bar_success,
              plainText := appendPlainText txt_log_success (plainText st)\<rparr>
         else
           st\<lparr>statusBar_message := txt_bar_failure,
              plainText :=
                appendPlainText (txt_log_exit_code @ number_text exitCode)
                  (appendPlainText txt_log_failure (plainText st))\<rparr>);
          st2 = updateUiForProcessingState False st1
      in case m_process st2 of
           None \<Rightarrow> None
         | Some p \<Rightarrow> Some (st2\<lparr>m_process := None\<rparr>))"

definition onProcessError :: "ProcessError \<Rightarrow> mainwindow \<Rightarrow> mainwindow" where
  "onProcessError error st =
     (if error = FailedToStart \<and> m_process st \<noteq> None then
        (updateUiForProcessingState False
           (st\<lparr>dialogs_shown := dialogs_shown st @
                 [Critical txt_start_failed_title txt_start_failed_text]\<rparr>))
        \<lparr>m_process := None\<rparr>
      else st)"

definition status_display :: "string \<Rightarrow> string" where
  \<comment> \<open>the text \<open>findAndUpdatetTableRow\<close> writes into the status cell\<close>
  "status_display status =
     (if status = ''PROCESSING'' then txt_processing
      else if status = ''SUCCESS'' then txt_done
      else if status = ''FAILURE'' then txt_failed
      else if status = ''SKIPPED'' then txt_skipped
      else if status = ''UNIDENTIFIED'' then txt_unidentified
      else status)"

fun update_first_match :: "string \<Rightarrow> string \<Rightarrow> string \<Rightarrow> row list \<Rightarrow> row list" where
  \<comment> \<open>the loop of \<open>findAndUpdatetTableRow\<close>, which returns at the first row of that path\<close>
  "update_first_match filePath status message [] = []"
| "update_first_match filePath status message (r # rs) =
     (if path_text r = filePath
      then r\<lparr>status_text := status_display status, status_toolTip := message\<rparr> # rs
      else r # update_first_match filePath status message rs)"

definition findAndUpdatetTableRow ::
  "string \<Rightarrow> string \<Rightarrow> string \<Rightarrow> mainwindow \<Rightarrow> mainwindow" where
  "findAndUpdatetTableRow filePath status message st =
     st\<lparr>table_rows := update_first_match filePath status message (table_rows st)\<rparr>"

definition readProcessOutput_line :: "string \<Rightarrow> mainwindow \<Rightarrow> mainwindow" where
  \<comment> \<open>the body of the loop of \<open>readProcessOutput\<close>; the text cursor of the log is at its end\<close>
  "readProcessOutput_line line st =
     (if startsWith line status_prefix then
        (let parts = split_on CHR ''|'' line in
         if length parts \<ge> 4
         then findAndUpdatetTableRow (parts ! 1) (parts ! 2) (parts ! 3) st
         else st)
      else st\<lparr>plainText := plainText st @ line @ [newline]\<rparr>)"

definition readProcessOutput :: "string \<Rightarrow> mainwindow \<Rightarrow> mainwindow" where
  \<comment> \<open>\<open>data\<close> is what \<open>readAllStandardOutput\<close> returns at this notification\<close>
  "readProcessOutput data st =
     (if m_process st = None then st
      else fold readProcessOutput_line (split_skip_empty newline data) st)"

definition readProcessError :: "string \<Rightarrow> mainwindow \<Rightarrow> mainwindow" where
  "readProcessError data st =
     (if m_process st = None then st
      else st\<lparr>plainText := appendPlainText (txt_log_stderr @ data) (plainText st)\<rparr>)"

section \<open>Settings, construction and events\<close>

definition value_or :: "'a option \<Rightarrow> 'a \<Rightarrow> 'a" where
  \<comment> \<open>\<open>settings.value(key, default)\<close>\<close>
  "value_or v d = (case v of None \<Rightarrow> d | Some x \<Rightarrow> x)"

definition loadSettings :: "environment \<Rightarrow> settings \<Rightarrow> mainwindow \<Rightarrow> mainwindow" where
  "loadSettings env cfg st =
     st\<lparr>outputPath_text := value_or (paths_outputPath cfg) [],
        inputDirPath_text := value_or (paths_inputPath cfg) [],
        m_lastSelectedPath := value_or (paths_lastSelectedPath cfg) (homePath env),
        conflict_index := value_or (options_conflictIndex cfg) 2,
        outputToSource_checked := value_or (options_outputToSource cfg) False,
        useDirectoryMode_checked := value_or (options_useDirectoryMode cfg) False,
        m_dontAskOnModeChange := value_or (options_dontAskOnModeChange cfg) False\<rparr>"

definition saveSettings :: "mainwindow \<Rightarrow> settings" where
  "saveSettings st =
     \<lparr>paths_outputPath = Some (outputPath_text st),
      paths_inputPath = Some (inputDirPath_text st),
      paths_lastSelectedPath = Some (m_lastSelectedPath st),
      options_conflictIndex = Some (conflict_index st),
      options_outputToSource = Some (outputToSource_checked st),
      options_useDirectoryMode = Some (useDirectoryMode_checked st),
      options_dontAskOnModeChange = Some (m_dontAskOnModeChange st)\<rparr>"

definition after_setupUi :: mainwindow where
  \<comment> \<open>the window after the member initialisers and \<open>setupUi\<close>: the form is not among the
      sources, so the widgets are taken as Qt creates them (enabled and empty) and the start
      button with its text outside a run\<close>
  "after_setupUi =
     \<lparr>m_process = None, m_isProcessing = False, m_fileList = [], m_lastSelectedPath = [],
      m_dontAskOnModeChange = False, m_modeChangeDebounceTimer = 0, table_rows = [],
      header_labels = [], useDirectoryMode_checked = False, outputToSource_checked = False,
      outputPath_text = [], inputDirPath_text = [], conflict_index = 0, plainText = [],
      statusBar_message = [], startProcessButton_text = txt_btn_start,
      enabled =
        \<lparr>useDirectoryModeCheckBox_enabled = True, outputToSourceCheckBox_enabled = True,
         conflictComboBox_enabled = True, browseInputDirButton_enabled = True,
         inputDirPathLineEdit_enabled = True, refreshDirButton_enabled = True,
         addFilesButton_enabled = True, table_acceptDrops = True,
         removeSelectedButton_enabled = True, selectAllButton_enabled = True,
         invertSelectionButton_enabled = True, startProcessButton_enabled = True,
         outputPathLineEdit_enabled = True, browseOutputButton_enabled = True\<rparr>,
      dialogs_shown = []\<rparr>"

definition MainWindow :: "environment \<Rightarrow> settings \<Rightarrow> int \<Rightarrow> mainwindow" where
  \<comment> \<open>the constructor, at the clock reading \<open>now\<close>\<close>
  "MainWindow env cfg now =
     (let st1 = loadSettings env cfg after_setupUi;
          st2 = updateUiForMode (useDirectoryMode_checked st1) st1;
          st3 = (if useDirectoryMode_checked st2
                 then scanAndPopulateFiles env (inputDirPath_text st2) st2 else st2);
          st4 = updateActionButtonStates st3;
          st5 = on_outputToSourceCheckBox_stateChanged
                  (checkState (outputToSource_checked st4)) st4
      in st5\<lparr>m_modeChangeDebounceTimer := now\<rparr>)"

text \<open>
  The events of the event loop, each with what it brings from outside: the choice made in a
  dialog, the clock, the bytes that arrived. Between two events the window is at rest.
\<close>

datatype event =
    AddFilesClicked "string list"
  | FilesDropped "qurl list"
  | RemoveSelectedClicked
  | SelectAllClicked
  | InvertSelectionClicked
  | RowCheckBoxClicked nat
  | ModeCheckBoxPressed int answer
  | BrowseInputDirClicked string
  | InputDirEdited string
  | RefreshDirClicked
  | BrowseOutputClicked string
  | OutputPathEdited string
  | OutputToSourceClicked
  | ConflictSelected int
  | StartProcessClicked
  | ProcessStarted
  | ProcessFinished int ExitStatus
  | ProcessErrorOccurred ProcessError
  | ReadyReadStandardOutput string
  | ReadyReadStandardError string

fun step :: "environment \<Rightarrow> event \<Rightarrow> mainwindow \<Rightarrow> mainwindow option" where
  \<comment> \<open>\<open>None\<close>: the event cannot occur in this state, or its handler dereferences a null
      pointer. \<open>editingFinished\<close> is connected twice, by name and in the constructor.\<close>
  "step env (AddFilesClicked files) st = Some (on_addFilesButton_clicked env files st)"
| "step env (FilesDropped urls) st = Some (dropEvent env urls st)"
| "step env RemoveSelectedClicked st = Some (on_removeSelectedButton_clicked st)"
| "step env SelectAllClicked st = Some (on_selectAllButton_clicked st)"
| "step env InvertSelectionClicked st = Some (on_invertSelectionButton_clicked st)"
| "step env (RowCheckBoxClicked i) st =
     (if i < length (table_rows st) then
        Some (st\<lparr>table_rows := (table_rows st)
          [i := (table_rows st ! i)\<lparr>checkBox_checked := \<not> checkBox_checked (table_rows st ! i)\<rparr>]\<rparr>)
      else None)"
| "step env (ModeCheckBoxPressed now ans) st = Some (handleModeChangeRequest env now ans st)"
| "step env (BrowseInputDirClicked dir) st = Some (on_browseInputDirButton_clicked env dir st)"
| "step env (InputDirEdited text) st =
     Some (on_inputDirPathLineEdit_editingFinished env
            (on_inputDirPathLineEdit_editingFinished env (st\<lparr>inputDirPath_text := text\<rparr>)))"
| "step env RefreshDirClicked st = Some (on_refreshDirButton_clicked env st)"
| "step env (BrowseOutputClicked dir) st = Some (on_browseOutputButton_clicked dir st)"
| "step env (OutputPathEdited text) st = Some (st\<lparr>outputPath_text := text\<rparr>)"
| "step env OutputToSourceClicked st =
     Some (on_outputToSourceCheckBox_stateChanged (checkState (\<not> outputToSource_checked st))
            (st\<lparr>outputToSource_checked := \<not> outputToSource_checked st\<rparr>))"
| "step env (ConflictSelected index) st = Some (st\<lparr>conflict_index := index\<rparr>)"
| "step env StartProcessClicked st = Some (on_startProcessButton_clicked env st)"
| "step env ProcessStarted st =
     (case m_process st of
        None \<Rightarrow> None
      | Some p \<Rightarrow>
          if process_state p = Starting
          then onProcessStarted (st\<lparr>m_process := Some (p\<lparr>process_state := Running\<rparr>)\<rparr>)
          else None)"
| "step env (ProcessFinished exitCode exitStatus) st = onProcessFinished exitCode exitStatus st"
| "step env (ProcessErrorOccurred error) st = Some (onProcessError error st)"
| "step env (ReadyReadStandardOutput data) st = Some (readProcessOutput data st)"
| "step env (ReadyReadStandardError data) st = Some (readProcessError data st)"

fun run :: "(environment \<times> event) list \<Rightarrow> mainwindow \<Rightarrow> mainwindow option" where
  \<comment> \<open>a sequence of events, each with the surroundings it finds\<close>
  "run [] st = Some st"
| "run ((env, ev) # evs) st =
     (case step env ev st of None \<Rightarrow> None | Some st' \<Rightarrow> run evs st')"

section \<open>Notions used by the statements\<close>

text \<open>
  The path list and the path column agree, and no path occurs twice.
\<close>

definition list_matches_table :: "mainwindow \<Rightarrow> bool" where
  "list_matches_table st =
     (m_fileList st = map path_text (table_rows st) \<and>
      distinct (map path_text (table_rows st)))"





fun lines_not_cut :: "string list \<Rightarrow> bool" where
  \<comment> \<open>no boundary between two chunks falls inside a line: a chunk is empty, or nothing
      follows it, or it ends with a newline, or what follows begins with one\<close>
  "lines_not_cut [] = True"
| "lines_not_cut (c # cs) =
     ((c = [] \<or> concat cs = [] \<or> last c = newline \<or> hd (concat cs) = newline) \<and>
      lines_not_cut cs)"






text \<open>
  An example: a tool installed under \<open>/opt/tool\<close>, a folder \<open>/data\<close> with two data
  files, and a configuration file that names this folder and an output folder.
\<close>

definition example_environment :: environment where
  "example_environment =
     \<lparr>applicationDirPath = ''/opt/tool'', native_separator = CHR ''/'',
      dir_exists = (\<lambda>d. d = ''/data''),
      dir_files = (\<lambda>d. if d = ''/data'' then [''/data/x.csv'', ''/data/sub/y.xlsx''] else []),
      info_isDir = (\<lambda>p. p = ''/data''),
      info_isFile = (\<lambda>p. p = ''/a/b.csv'' \<or> p = ''/a/c.csv''),
      info_absolutePath = (\<lambda>p. ''/a''),
      homePath = ''/home/user''\<rparr>"

definition example_settings :: settings where
  "example_settings =
     \<lparr>paths_outputPath = Some ''/out'', paths_inputPath = Some ''/data'',
      paths_lastSelectedPath = None, options_conflictIndex = None,
      options_outputToSource = None, options_useDirectoryMode = None,
      options_dontAskOnModeChange = None\<rparr>"

definition example_window :: mainwindow where
  "example_window = MainWindow example_environment example_settings 0"

definition at_example :: "event list \<Rightarrow> (environment \<times> event) list" where
  "at_example evs = map (\<lambda>ev. (example_environment, ev)) evs"

definition example_file_events :: "event list" where
  "example_file_events =
     [AddFilesClicked [''/a/b.csv'', ''/a/c.csv'', ''/a/b.csv''],
      RowCheckBoxClicked 1,
      RemoveSelectedClicked,
      ModeCheckBoxPressed 1000 \<lparr>exec_result = 0, dontAskAgain_checked = False\<rparr>,
      RowCheckBoxClicked 0,
      RemoveSelectedClicked]"

definition example_session_events :: "event list" where
  "example_session_events =
     [AddFilesClicked [''/a/b.csv'', ''/a/c.csv''], StartProcessClicked, ProcessStarted]"

definition example_session :: mainwindow where
  \<comment> \<open>the example window with two files, at the moment the worker has been given its tasks\<close>
  "example_session = the (run (at_example example_session_events) example_window)"

definition example_without_output :: mainwindow where
  \<comment> \<open>the example window with two files, after the output folder has been erased\<close>
  "example_without_output =
     the (run (at_example [AddFilesClicked [''/a/b.csv'', ''/a/c.csv''], OutputPathEdited []])
            example_window)"

definition example_processing :: mainwindow where
  \<comment> \<open>the example session after the worker has reported on both files\<close>
  "example_processing =
     readProcessOutput
       ''##STATUS##|/a/b.csv|PROCESSING|working\<newline>##STATUS##|/a/c.csv|SUCCESS|done\<newline>''
       example_session"

definition example_starting :: mainwindow where
  \<comment> \<open>the example window with two files, after the start button has been clicked\<close>
  "example_starting =
     the (run (at_example [AddFilesClicked [''/a/b.csv'', ''/a/c.csv''], StartProcessClicked])
            example_window)"

definition example_two_files :: mainwindow where
  \<comment> \<open>the example window with two files\<close>
  "example_two_files =
     the (run (at_example [AddFilesClicked [''/a/b.csv'', ''/a/c.csv'']]) example_window)"




section \<open>Splitting\<close>

lemma split_on_not_Nil: "split_on sep s \<noteq> []"
  by (induction s) (auto split: list.splits)

lemma split_on_append_sep: "split_on sep (a @ sep # b) = split_on sep a @ split_on sep b"
proof (induction a)
  case Nil
  show ?case by simp
next
  case (Cons c a)
  obtain p ps where ps: "split_on sep a = p # ps"
    using split_on_not_Nil [of sep a] by (cases "split_on sep a") auto
  with Cons show ?case by simp
qed

lemma split_on_no_sep: "sep \<notin> set a \<Longrightarrow> split_on sep a = [a]"
  by (induction a) auto

lemma split_on_first: "sep \<notin> set a \<Longrightarrow> split_on sep (a @ sep # b) = a # split_on sep b"
  by (simp add: split_on_append_sep split_on_no_sep)

section \<open>The list and the table\<close>

lemma updateActionButtonStates_files [simp]:
  "m_fileList (updateActionButtonStates st) = m_fileList st"
  "table_rows (updateActionButtonStates st) = table_rows st"
  by (simp_all add: updateActionButtonStates_def Let_def)

lemma updateUiForMode_files [simp]:
  "m_fileList (updateUiForMode b st) = m_fileList st"
  "table_rows (updateUiForMode b st) = table_rows st"
  by (simp_all add: updateUiForMode_def)

lemma updateUiForProcessingState_files [simp]:
  "m_fileList (updateUiForProcessingState b st) = m_fileList st"
  "table_rows (updateUiForProcessingState b st) = table_rows st"
  by (simp_all add: updateUiForProcessingState_def Let_def)

lemma on_outputToSource_files [simp]:
  "m_fileList (on_outputToSourceCheckBox_stateChanged s st) = m_fileList st"
  "table_rows (on_outputToSourceCheckBox_stateChanged s st) = table_rows st"
  by (simp_all add: on_outputToSourceCheckBox_stateChanged_def Let_def)

lemma path_text_new_row [simp]: "path_text (new_row p) = p"
  by (simp add: new_row_def)

lemma addFileToList_matches:
  "list_matches_table st \<Longrightarrow> list_matches_table (addFileToList p st)"
  by (simp add: list_matches_table_def addFileToList_def)

lemma fold_addFileToList_matches:
  "list_matches_table st \<Longrightarrow> list_matches_table (fold addFileToList ps st)"
  by (induction ps arbitrary: st) (simp_all add: addFileToList_matches)

lemma removeAll_nth_distinct:
  "distinct xs \<Longrightarrow> i < length xs \<Longrightarrow> removeAll (xs ! i) xs = take i xs @ drop (Suc i) xs"
proof (induction xs arbitrary: i)
  case Nil
  then show ?case by simp
next
  case (Cons x xs)
  show ?case
  proof (cases i)
    case 0
    with Cons.prems show ?thesis by simp
  next
    case (Suc j)
    with Cons.prems have "xs ! j \<noteq> x" by auto
    with Suc Cons show ?thesis by simp
  qed
qed

lemma distinct_without_nth: "distinct xs \<Longrightarrow> distinct (take i xs @ drop (Suc i) xs)"
proof (induction xs arbitrary: i)
  case Nil
  then show ?case by simp
next
  case (Cons x xs)
  show ?case
  proof (cases i)
    case 0
    with Cons.prems show ?thesis by simp
  next
    case (Suc j)
    have "x \<notin> set (take j xs)" "x \<notin> set (drop (Suc j) xs)"
      using Cons.prems by (auto dest: in_set_takeD in_set_dropD)
    with Suc Cons show ?thesis by simp
  qed
qed

lemma remove_rows_from_matches:
  "list_matches_table st \<Longrightarrow> i \<le> length (table_rows st) \<Longrightarrow>
   list_matches_table (remove_rows_from i st)"
proof (induction i arbitrary: st)
  case 0
  then show ?case by simp
next
  case (Suc i)
  let ?rows = "table_rows st"
  let ?st' = "st\<lparr>m_fileList := removeAll (path_text (?rows ! i)) (m_fileList st),
                  table_rows := take i ?rows @ drop (Suc i) ?rows\<rparr>"
  from Suc.prems have lt: "i < length ?rows" by simp
  from Suc.prems have eq: "m_fileList st = map path_text ?rows"
    and d: "distinct (map path_text ?rows)"
    by (simp_all add: list_matches_table_def)
  have "removeAll (map path_text ?rows ! i) (map path_text ?rows) =
        take i (map path_text ?rows) @ drop (Suc i) (map path_text ?rows)"
    using d lt by (intro removeAll_nth_distinct) simp_all
  moreover have "distinct (take i (map path_text ?rows) @ drop (Suc i) (map path_text ?rows))"
    using d by (rule distinct_without_nth)
  ultimately have "list_matches_table ?st'"
    using eq lt by (simp add: list_matches_table_def take_map drop_map)
  moreover have "i \<le> length (table_rows ?st')" using lt by simp
  ultimately have "list_matches_table (remove_rows_from i ?st')" by (rule Suc.IH)
  moreover have "list_matches_table (remove_rows_from i st)"
    using Suc.IH [of st] Suc.prems by simp
  ultimately show ?case by simp
qed

lemma scanAndPopulateFiles_matches: "list_matches_table (scanAndPopulateFiles env d st)"
proof -
  have e: "list_matches_table (st\<lparr>m_fileList := [], table_rows := [], statusBar_message := m\<rparr>)" for m
    by (simp add: list_matches_table_def)
  have "list_matches_table (fold addFileToList ps
          (st\<lparr>m_fileList := [], table_rows := [], statusBar_message := m\<rparr>))" for ps m
    by (rule fold_addFileToList_matches [OF e])
  then show ?thesis
    by (simp add: scanAndPopulateFiles_def list_matches_table_def)
qed


lemma list_matches_table_cong:
  "m_fileList st' = m_fileList st \<Longrightarrow> map path_text (table_rows st') = map path_text (table_rows st)
   \<Longrightarrow> list_matches_table st \<Longrightarrow> list_matches_table st'"
  by (simp add: list_matches_table_def)

lemma switch_mode_matches:
  "list_matches_table st \<Longrightarrow> list_matches_table (switch_mode env b st)"
  by (simp add: switch_mode_def Let_def list_matches_table_def
      scanAndPopulateFiles_matches [unfolded list_matches_table_def])

lemma handleModeChangeRequest_matches:
  "list_matches_table st \<Longrightarrow> list_matches_table (handleModeChangeRequest env now ans st)"
proof -
  assume a: "list_matches_table st"
  have cleared: "list_matches_table (switch_mode env b (s\<lparr>useDirectoryMode_checked := b,
      m_fileList := [], table_rows := []\<rparr>))" for b s
    by (rule switch_mode_matches) (simp add: list_matches_table_def)
  have kept: "list_matches_table (switch_mode env b
      (st\<lparr>m_modeChangeDebounceTimer := now, useDirectoryMode_checked := b\<rparr>))" for b
    by (rule switch_mode_matches) (use a in \<open>simp add: list_matches_table_def\<close>)
  have other: "list_matches_table (st\<lparr>m_modeChangeDebounceTimer := now,
      dialogs_shown := ds\<rparr>)" for ds
    using a by (simp add: list_matches_table_def)
  show ?thesis
    unfolding handleModeChangeRequest_def Let_def
    using a cleared kept other by simp
qed

lemma map_path_update_first_match [simp]:
  "map path_text (update_first_match p s m rows) = map path_text rows"
  by (induction rows) simp_all

lemma map_path_cancel_processing_rows [simp]:
  "map path_text (cancel_processing_rows rows) = map path_text rows"
  by (induction rows) (simp_all add: cancel_processing_rows_def)

lemma readProcessOutput_line_matches:
  "list_matches_table st \<Longrightarrow> list_matches_table (readProcessOutput_line line st)"
  by (simp add: readProcessOutput_line_def findAndUpdatetTableRow_def Let_def
      list_matches_table_def)

lemma readProcessOutput_matches:
  "list_matches_table st \<Longrightarrow> list_matches_table (readProcessOutput data st)"
proof -
  have "list_matches_table s \<Longrightarrow> list_matches_table (fold readProcessOutput_line ls s)" for ls s
    by (induction ls arbitrary: s) (simp_all add: readProcessOutput_line_matches)
  then show "list_matches_table st \<Longrightarrow> ?thesis"
    by (simp add: readProcessOutput_def)
qed

lemma onProcessFinished_matches:
  "list_matches_table st \<Longrightarrow> onProcessFinished c s st = Some st' \<Longrightarrow> list_matches_table st'"
  by (auto simp: onProcessFinished_def Let_def list_matches_table_def
      split: if_splits option.splits)

lemma onProcessStarted_matches:
  "list_matches_table st \<Longrightarrow> onProcessStarted st = Some st' \<Longrightarrow> list_matches_table st'"
  by (auto simp: onProcessStarted_def Let_def list_matches_table_def
      split: if_splits option.splits)

lemma on_startProcessButton_clicked_matches:
  "list_matches_table st \<Longrightarrow> list_matches_table (on_startProcessButton_clicked env st)"
  by (auto simp: on_startProcessButton_clicked_def Let_def list_matches_table_def
      split: option.splits)

lemma drop_url_matches:
  "list_matches_table st \<Longrightarrow> list_matches_table (drop_url env url st)"
  by (simp add: drop_url_def Let_def fold_addFileToList_matches addFileToList_matches)

lemma dropEvent_matches:
  "list_matches_table st \<Longrightarrow> list_matches_table (dropEvent env urls st)"
proof -
  have "list_matches_table s \<Longrightarrow> list_matches_table (fold (drop_url env) us s)" for us s
    by (induction us arbitrary: s) (simp_all add: drop_url_matches)
  then show "list_matches_table st \<Longrightarrow> ?thesis"
    by (simp add: dropEvent_def)
qed

lemma map_path_toggle_row [simp]:
  "map path_text (rows[i := (rows ! i)\<lparr>checkBox_checked := b\<rparr>]) = map path_text rows"
proof (rule nth_equalityI)
  show "length (map path_text (rows[i := (rows ! i)\<lparr>checkBox_checked := b\<rparr>])) =
        length (map path_text rows)"
    by simp
next
  fix j
  assume "j < length (map path_text (rows[i := (rows ! i)\<lparr>checkBox_checked := b\<rparr>]))"
  then show "map path_text (rows[i := (rows ! i)\<lparr>checkBox_checked := b\<rparr>]) ! j =
             map path_text rows ! j"
    by (cases "j = i") simp_all
qed

lemma on_addFilesButton_clicked_matches:
  "list_matches_table st \<Longrightarrow> list_matches_table (on_addFilesButton_clicked env files st)"
proof (cases files)
  case Nil
  assume "list_matches_table st"
  with Nil show ?thesis by (simp add: on_addFilesButton_clicked_def)
next
  case (Cons f fs)
  assume "list_matches_table st"
  then have "list_matches_table (st\<lparr>m_lastSelectedPath := info_absolutePath env f\<rparr>)"
    by (simp add: list_matches_table_def)
  then have "list_matches_table
      (fold addFileToList files (st\<lparr>m_lastSelectedPath := info_absolutePath env f\<rparr>))"
    by (rule fold_addFileToList_matches)
  with Cons show ?thesis by (simp add: on_addFilesButton_clicked_def)
qed

lemma on_removeSelectedButton_clicked_matches:
  "list_matches_table st \<Longrightarrow> list_matches_table (on_removeSelectedButton_clicked st)"
  using remove_rows_from_matches [of st "length (table_rows st)"]
  by (simp add: on_removeSelectedButton_clicked_def list_matches_table_def)

lemma selection_matches:
  "list_matches_table st \<Longrightarrow> list_matches_table (on_selectAllButton_clicked st)"
  "list_matches_table st \<Longrightarrow> list_matches_table (on_invertSelectionButton_clicked st)"
  by (simp_all add: on_selectAllButton_clicked_def on_invertSelectionButton_clicked_def
      list_matches_table_def Let_def comp_def)

lemma directory_handlers_match:
  "list_matches_table st \<Longrightarrow> list_matches_table (on_browseInputDirButton_clicked env dir st)"
  "list_matches_table (on_inputDirPathLineEdit_editingFinished env st)"
  "list_matches_table (on_refreshDirButton_clicked env st)"
  by (simp_all add: on_browseInputDirButton_clicked_def
      on_inputDirPathLineEdit_editingFinished_def on_refreshDirButton_clicked_def
      scanAndPopulateFiles_matches)

lemma other_handlers_match:
  "list_matches_table st \<Longrightarrow> list_matches_table (on_browseOutputButton_clicked dir st)"
  "list_matches_table st \<Longrightarrow> list_matches_table (onProcessError error st)"
  "list_matches_table st \<Longrightarrow> list_matches_table (readProcessError data st)"
  "list_matches_table st \<Longrightarrow> list_matches_table (on_outputToSourceCheckBox_stateChanged s st)"
  by (simp_all add: on_browseOutputButton_clicked_def onProcessError_def readProcessError_def
      list_matches_table_def)

lemma step_matches:
  assumes "list_matches_table st" and "step env ev st = Some st'"
  shows "list_matches_table st'"
proof (cases ev)
  case (RowCheckBoxClicked i)
  with assms show ?thesis
    by (auto simp: list_matches_table_def split: if_splits)
next
  case (OutputPathEdited t)
  with assms show ?thesis by (auto simp: list_matches_table_def)
next
  case OutputToSourceClicked
  with assms show ?thesis by (auto simp: list_matches_table_def)
next
  case (ConflictSelected index)
  with assms show ?thesis by (auto simp: list_matches_table_def)
next
  case ProcessStarted
  with assms obtain p where
    "onProcessStarted (st\<lparr>m_process := Some (p\<lparr>process_state := Running\<rparr>)\<rparr>) = Some st'"
    by (auto split: option.splits if_splits)
  moreover have "list_matches_table (st\<lparr>m_process := Some (p\<lparr>process_state := Running\<rparr>)\<rparr>)"
    using assms(1) by (simp add: list_matches_table_def)
  ultimately show ?thesis by (rule onProcessStarted_matches [rotated])
next
  case (ProcessFinished exitCode exitStatus)
  with assms show ?thesis by (auto dest: onProcessFinished_matches)
qed (use assms in \<open>auto simp: on_addFilesButton_clicked_matches dropEvent_matches
      on_removeSelectedButton_clicked_matches selection_matches directory_handlers_match
      other_handlers_match handleModeChangeRequest_matches readProcessOutput_matches
      on_startProcessButton_clicked_matches\<close>)

lemma run_matches:
  "list_matches_table st \<Longrightarrow> run evs st = Some st' \<Longrightarrow> list_matches_table st'"
proof (induction evs arbitrary: st)
  case Nil
  then show ?case by simp
next
  case (Cons e evs)
  obtain env ev where e: "e = (env, ev)" by (cases e)
  with Cons.prems obtain st1 where s: "step env ev st = Some st1" and r: "run evs st1 = Some st'"
    by (auto split: option.splits)
  from Cons.prems(1) s have "list_matches_table st1" by (rule step_matches)
  then show ?case using r by (rule Cons.IH)
qed

lemma MainWindow_matches: "list_matches_table (MainWindow env cfg now)"
  by (simp add: MainWindow_def Let_def list_matches_table_def loadSettings_def after_setupUi_def
      scanAndPopulateFiles_matches [unfolded list_matches_table_def])

section \<open>Status lines\<close>

lemma status_prefix_split:
  "split_on CHR ''|'' (status_prefix @ rest) = ''##STATUS##'' # split_on CHR ''|'' rest"
proof -
  have "split_on CHR ''|'' (''##STATUS##'' @ CHR ''|'' # rest) =
        ''##STATUS##'' # split_on CHR ''|'' rest"
    by (rule split_on_first) simp
  then show ?thesis by (simp add: status_prefix_def)
qed

lemma startsWith_append [simp]: "startsWith (p @ rest) p"
  by (simp add: startsWith_def)

lemma update_first_match_absent:
  "p \<notin> set (map path_text rows) \<Longrightarrow> update_first_match p s m rows = rows"
  by (induction rows) auto

lemma update_first_match_at:
  "i < length rows \<Longrightarrow> path_text (rows ! i) = p \<Longrightarrow> \<forall>j<i. path_text (rows ! j) \<noteq> p \<Longrightarrow>
   update_first_match p s m rows =
     rows[i := (rows ! i)\<lparr>status_text := status_display s, status_toolTip := m\<rparr>]"
proof (induction rows arbitrary: i)
  case Nil
  then show ?case by simp
next
  case (Cons r rows)
  show ?case
  proof (cases i)
    case 0
    with Cons.prems show ?thesis by simp
  next
    case (Suc k)
    with Cons.prems have "path_text r \<noteq> p" by auto
    moreover have "update_first_match p s m rows =
        rows[k := (rows ! k)\<lparr>status_text := status_display s, status_toolTip := m\<rparr>]"
      using Cons.prems Suc by (intro Cons.IH) auto
    ultimately show ?thesis using Suc by simp
  qed
qed

section \<open>Chunks of output\<close>

lemma split_skip_empty_append:
  assumes "a = [] \<or> last a = sep"
  shows "split_skip_empty sep (a @ b) = split_skip_empty sep a @ split_skip_empty sep b"
proof (cases "a = []")
  case True
  then show ?thesis by (simp add: split_skip_empty_def)
next
  case False
  with assms obtain a' where a: "a = a' @ [sep]"
    by (metis append_butlast_last_id)
  have "split_on sep (a' @ sep # []) = split_on sep a' @ [[]]"
    by (simp add: split_on_append_sep del: append.simps)
  moreover have "split_on sep (a' @ sep # b) = split_on sep a' @ split_on sep b"
    by (rule split_on_append_sep)
  ultimately show ?thesis by (simp add: split_skip_empty_def a)
qed

lemma m_process_readProcessOutput_line [simp]:
  "m_process (readProcessOutput_line line st) = m_process st"
  by (simp add: readProcessOutput_line_def findAndUpdatetTableRow_def Let_def)

lemma m_process_fold_readProcessOutput_line [simp]:
  "m_process (fold readProcessOutput_line ls st) = m_process st"
  by (induction ls arbitrary: st) simp_all

lemma m_process_readProcessOutput [simp]:
  "m_process (readProcessOutput data st) = m_process st"
  by (simp add: readProcessOutput_def)

lemma readProcessOutput_Nil [simp]: "readProcessOutput [] st = st"
  by (simp add: readProcessOutput_def split_skip_empty_def)

lemma split_skip_empty_Nil [simp]: "split_skip_empty sep [] = []"
  by (simp add: split_skip_empty_def)

lemma split_skip_empty_between_lines:
  assumes "a = [] \<or> b = [] \<or> last a = sep \<or> hd b = sep"
  shows "split_skip_empty sep (a @ b) = split_skip_empty sep a @ split_skip_empty sep b"
proof -
  consider "a = []" | "b = []" | "a \<noteq> []" "last a = sep" | "b \<noteq> []" "hd b = sep"
    using assms by blast
  then show ?thesis
  proof cases
    case 1
    then show ?thesis by simp
  next
    case 2
    then show ?thesis by simp
  next
    case 3
    then show ?thesis by (simp add: split_skip_empty_append)
  next
    case 4
    then obtain b' where b: "b = sep # b'" by (cases b) auto
    have "split_on sep (a @ sep # b') = split_on sep a @ split_on sep b'"
      by (rule split_on_append_sep)
    then show ?thesis by (simp add: split_skip_empty_def b)
  qed
qed

lemma readProcessOutput_between_lines:
  assumes "a = [] \<or> b = [] \<or> last a = newline \<or> hd b = newline"
  shows "readProcessOutput b (readProcessOutput a st) = readProcessOutput (a @ b) st"
  by (simp add: readProcessOutput_def split_skip_empty_between_lines [OF assms])

section \<open>The input stream of the worker\<close>

lemma m_process_ui [simp]:
  "m_process (updateActionButtonStates st) = m_process st"
  "m_process (updateUiForMode b st) = m_process st"
  "m_process (updateUiForProcessingState b st) = m_process st"
  "m_process (on_outputToSourceCheckBox_stateChanged s st) = m_process st"
  by (simp_all add: updateActionButtonStates_def updateUiForMode_def
      updateUiForProcessingState_def on_outputToSourceCheckBox_stateChanged_def Let_def)

lemma m_process_addFileToList [simp]: "m_process (addFileToList p st) = m_process st"
  by (simp add: addFileToList_def)

lemma m_process_fold_addFileToList [simp]:
  "m_process (fold addFileToList ps st) = m_process st"
  by (induction ps arbitrary: st) simp_all

lemma m_process_scanAndPopulateFiles [simp]:
  "m_process (scanAndPopulateFiles env d st) = m_process st"
  by (simp add: scanAndPopulateFiles_def)

lemma m_process_switch_mode [simp]: "m_process (switch_mode env b st) = m_process st"
  by (simp add: switch_mode_def Let_def)

lemma m_process_handleModeChangeRequest [simp]:
  "m_process (handleModeChangeRequest env now ans st) = m_process st"
  by (simp add: handleModeChangeRequest_def Let_def)

lemma m_process_drop_url [simp]: "m_process (drop_url env url st) = m_process st"
  by (simp add: drop_url_def Let_def)

lemma m_process_dropEvent [simp]: "m_process (dropEvent env urls st) = m_process st"
proof -
  have "m_process (fold (drop_url env) us s) = m_process s" for us s
    by (induction us arbitrary: s) simp_all
  then show ?thesis by (simp add: dropEvent_def)
qed

lemma m_process_remove_rows_from [simp]: "m_process (remove_rows_from i st) = m_process st"
  by (induction i arbitrary: st) simp_all

lemma m_process_file_handlers [simp]:
  "m_process (on_addFilesButton_clicked env files st) = m_process st"
  "m_process (on_removeSelectedButton_clicked st) = m_process st"
  "m_process (on_selectAllButton_clicked st) = m_process st"
  "m_process (on_invertSelectionButton_clicked st) = m_process st"
  "m_process (on_browseInputDirButton_clicked env dir st) = m_process st"
  "m_process (on_inputDirPathLineEdit_editingFinished env st) = m_process st"
  "m_process (on_refreshDirButton_clicked env st) = m_process st"
  "m_process (on_browseOutputButton_clicked dir st) = m_process st"
  "m_process (readProcessError data st) = m_process st"
  by (simp_all add: on_addFilesButton_clicked_def on_removeSelectedButton_clicked_def
      on_selectAllButton_clicked_def on_invertSelectionButton_clicked_def
      on_browseInputDirButton_clicked_def on_inputDirPathLineEdit_editingFinished_def
      on_refreshDirButton_clicked_def on_browseOutputButton_clicked_def readProcessError_def
      Let_def split: list.splits)






section \<open>The debounce\<close>

lemma addFileToList_mode [simp]:
  "m_modeChangeDebounceTimer (addFileToList p st) = m_modeChangeDebounceTimer st"
  "useDirectoryMode_checked (addFileToList p st) = useDirectoryMode_checked st"
  by (simp_all add: addFileToList_def updateActionButtonStates_def Let_def)

lemma fold_addFileToList_mode [simp]:
  "m_modeChangeDebounceTimer (fold addFileToList ps st) = m_modeChangeDebounceTimer st"
  "useDirectoryMode_checked (fold addFileToList ps st) = useDirectoryMode_checked st"
  by (induction ps arbitrary: st) simp_all

lemma switch_mode_mode [simp]:
  "m_modeChangeDebounceTimer (switch_mode env b st) = m_modeChangeDebounceTimer st"
  "useDirectoryMode_checked (switch_mode env b st) = useDirectoryMode_checked st"
  by (simp_all add: switch_mode_def scanAndPopulateFiles_def updateActionButtonStates_def
      updateUiForMode_def Let_def)





section \<open>Where the paths come from\<close>















section \<open>The example\<close>

lemma example_states_reached:
  "run (at_example example_file_events) example_window \<noteq> None"
  "run (at_example example_session_events) example_window = Some example_session"
  "run (at_example [AddFilesClicked [''/a/b.csv'', ''/a/c.csv''], OutputPathEdited []])
     example_window = Some example_without_output"
  "run (at_example [AddFilesClicked [''/a/b.csv'', ''/a/c.csv''], StartProcessClicked])
     example_window = Some example_starting"
  "run (at_example [AddFilesClicked [''/a/b.csv'', ''/a/c.csv'']]) example_window =
     Some example_two_files"
  "step example_environment
     (ReadyReadStandardOutput
        ''##STATUS##|/a/b.csv|PROCESSING|working\<newline>##STATUS##|/a/c.csv|SUCCESS|done\<newline>'')
     example_session = Some example_processing"
  by code_simp+

section \<open>The claims\<close>

text \<open>
  Claim C1, as the code has it. For a line of the worker's output (lines are the non-empty
  pieces between newlines of one chunk):
  \<^item> a line that is the prefix \<open>##STATUS##|\<close> followed by at least three fields separated
    by pipes is a status record: the first row whose path is the first field gets the
    display text of the second field as its status and the third field as its tool tip,
    further fields are ignored, a path without a row changes nothing, and nothing is
    written to the log;
  \<^item> a line with the prefix and fewer than three fields is dropped: no row and no log
    changes;
  \<^item> every other line is appended to the log as it is, followed by a newline, and changes
    no row.
\<close>

theorem status_line_handling:
  "(3 \<le> length (split_on CHR ''|'' rest) \<longrightarrow>
      readProcessOutput_line (status_prefix @ rest) st =
        findAndUpdatetTableRow (split_on CHR ''|'' rest ! 0) (split_on CHR ''|'' rest ! 1)
          (split_on CHR ''|'' rest ! 2) st \<and>
      plainText (readProcessOutput_line (status_prefix @ rest) st) = plainText st \<and>
      (\<forall>i. i < length (table_rows st) \<and>
           path_text (table_rows st ! i) = split_on CHR ''|'' rest ! 0 \<and>
           (\<forall>j<i. path_text (table_rows st ! j) \<noteq> split_on CHR ''|'' rest ! 0) \<longrightarrow>
           table_rows (readProcessOutput_line (status_prefix @ rest) st) =
             (table_rows st)[i := (table_rows st ! i)
               \<lparr>status_text := status_display (split_on CHR ''|'' rest ! 1),
                status_toolTip := split_on CHR ''|'' rest ! 2\<rparr>]) \<and>
      (split_on CHR ''|'' rest ! 0 \<notin> set (map path_text (table_rows st)) \<longrightarrow>
         readProcessOutput_line (status_prefix @ rest) st = st)) \<and>
   (length (split_on CHR ''|'' rest) < 3 \<longrightarrow>
      readProcessOutput_line (status_prefix @ rest) st = st) \<and>
   (\<not> startsWith line status_prefix \<longrightarrow>
      readProcessOutput_line line st = st\<lparr>plainText := plainText st @ line @ [newline]\<rparr>)"
proof (intro conjI impI allI)
  assume n: "3 \<le> length (split_on CHR ''|'' rest)"
  then show eq: "readProcessOutput_line (status_prefix @ rest) st =
        findAndUpdatetTableRow (split_on CHR ''|'' rest ! 0) (split_on CHR ''|'' rest ! 1)
          (split_on CHR ''|'' rest ! 2) st"
    by (simp add: readProcessOutput_line_def status_prefix_split Let_def)
  then show "plainText (readProcessOutput_line (status_prefix @ rest) st) = plainText st"
    by (simp add: findAndUpdatetTableRow_def)
  {
    fix i
    assume "i < length (table_rows st) \<and>
           path_text (table_rows st ! i) = split_on CHR ''|'' rest ! 0 \<and>
           (\<forall>j<i. path_text (table_rows st ! j) \<noteq> split_on CHR ''|'' rest ! 0)"
    then show "table_rows (readProcessOutput_line (status_prefix @ rest) st) =
             (table_rows st)[i := (table_rows st ! i)
               \<lparr>status_text := status_display (split_on CHR ''|'' rest ! 1),
                status_toolTip := split_on CHR ''|'' rest ! 2\<rparr>]"
      using eq by (simp add: findAndUpdatetTableRow_def update_first_match_at)
  }
  {
    assume "split_on CHR ''|'' rest ! 0 \<notin> set (map path_text (table_rows st))"
    then show "readProcessOutput_line (status_prefix @ rest) st = st"
      using eq by (simp add: findAndUpdatetTableRow_def update_first_match_absent)
  }
next
  assume "length (split_on CHR ''|'' rest) < 3"
  then show "readProcessOutput_line (status_prefix @ rest) st = st"
    by (simp add: readProcessOutput_line_def status_prefix_split Let_def)
next
  assume "\<not> startsWith line status_prefix"
  then show "readProcessOutput_line line st = st\<lparr>plainText := plainText st @ line @ [newline]\<rparr>"
    by (simp add: readProcessOutput_line_def)
qed

theorem status_line_handling_witness:
  "table_rows (readProcessOutput_line (status_prefix @ ''/a/c.csv|SUCCESS|done'') example_session) =
     [new_row ''/a/b.csv'',
      (new_row ''/a/c.csv'')\<lparr>status_text := txt_done, status_toolTip := ''done''\<rparr>] \<and>
   plainText (readProcessOutput_line (status_prefix @ ''/a/c.csv|SUCCESS|done'') example_session) =
     plainText example_session \<and>
   readProcessOutput_line (status_prefix @ ''/a/z.csv|SUCCESS|done'') example_session =
     example_session \<and>
   readProcessOutput_line (status_prefix @ ''onlyonefield'') example_session = example_session \<and>
   \<not> startsWith ''hello world'' status_prefix \<and>
   readProcessOutput_line ''hello world'' example_session =
     example_session\<lparr>plainText := plainText example_session @ ''hello world'' @ [newline]\<rparr>"
proof -
  have rows: "table_rows example_session = [new_row ''/a/b.csv'', new_row ''/a/c.csv'']"
    by code_simp
  have f3: "split_on CHR ''|'' ''/a/c.csv|SUCCESS|done'' = [''/a/c.csv'', ''SUCCESS'', ''done'']"
    and z3: "split_on CHR ''|'' ''/a/z.csv|SUCCESS|done'' = [''/a/z.csv'', ''SUCCESS'', ''done'']"
    and f1: "split_on CHR ''|'' ''onlyonefield'' = [''onlyonefield'']"
    by simp_all
  have no: "\<not> startsWith ''hello world'' status_prefix"
    by (simp add: startsWith_def status_prefix_def)
  let ?c = "''/a/c.csv|SUCCESS|done''" and ?z = "''/a/z.csv|SUCCESS|done''"
  note c = status_line_handling [of ?c example_session "''hello world''"]
  note z = status_line_handling [of ?z example_session "''hello world''"]
  note o = status_line_handling [of "''onlyonefield''" example_session "''hello world''"]
  have "3 \<le> length (split_on CHR ''|'' ?c)" by (simp add: f3)
  with c have c1: "plainText (readProcessOutput_line (status_prefix @ ?c) example_session) =
      plainText example_session"
    and c2: "\<And>i. i < length (table_rows example_session) \<and>
           path_text (table_rows example_session ! i) = split_on CHR ''|'' ?c ! 0 \<and>
           (\<forall>j<i. path_text (table_rows example_session ! j) \<noteq> split_on CHR ''|'' ?c ! 0) \<Longrightarrow>
           table_rows (readProcessOutput_line (status_prefix @ ?c) example_session) =
             (table_rows example_session)[i := (table_rows example_session ! i)
               \<lparr>status_text := status_display (split_on CHR ''|'' ?c ! 1),
                status_toolTip := split_on CHR ''|'' ?c ! 2\<rparr>]"
    by blast+
  have "table_rows (readProcessOutput_line (status_prefix @ ?c) example_session) =
      (table_rows example_session)[1 := (table_rows example_session ! 1)
         \<lparr>status_text := status_display (split_on CHR ''|'' ?c ! 1),
          status_toolTip := split_on CHR ''|'' ?c ! 2\<rparr>]"
    by (rule c2) (simp add: rows f3)
  then have c3: "table_rows (readProcessOutput_line (status_prefix @ ?c) example_session) =
     [new_row ''/a/b.csv'',
      (new_row ''/a/c.csv'')\<lparr>status_text := txt_done, status_toolTip := ''done''\<rparr>]"
    by (simp add: rows f3 status_display_def)
  have "3 \<le> length (split_on CHR ''|'' ?z)"
    and "split_on CHR ''|'' ?z ! 0 \<notin> set (map path_text (table_rows example_session))"
    by (simp_all add: z3 rows)
  with z have z1: "readProcessOutput_line (status_prefix @ ?z) example_session = example_session"
    by blast
  have "length (split_on CHR ''|'' ''onlyonefield'') < 3" by (simp add: f1)
  with o have o1: "readProcessOutput_line (status_prefix @ ''onlyonefield'') example_session =
      example_session"
    by blast
  from o no have l1: "readProcessOutput_line ''hello world'' example_session =
     example_session\<lparr>plainText := plainText example_session @ ''hello world'' @ [newline]\<rparr>"
    by blast
  from c1 c3 z1 o1 no l1 show ?thesis by blast
qed

theorem status_line_handling_counterexample:
  "startsWith ''##STATUS##|onlyonefield'' status_prefix \<and>
   length (split_on CHR ''|'' ''onlyonefield'') \<noteq> 3 \<and>
   readProcessOutput ''##STATUS##|onlyonefield\<newline>'' example_session = example_session \<and>
   \<not> contains_text
     (plainText (readProcessOutput ''##STATUS##|onlyonefield\<newline>'' example_session))
     ''##STATUS##|onlyonefield'' \<and>
   startsWith ''##STATUS##|/a/c.csv|FAILURE|bad|more'' status_prefix \<and>
   length (split_on CHR ''|'' ''/a/c.csv|FAILURE|bad|more'') \<noteq> 3 \<and>
   map status_text (table_rows example_session) = [txt_pending, txt_pending] \<and>
   map status_text (table_rows
     (readProcessOutput ''##STATUS##|/a/c.csv|FAILURE|bad|more\<newline>'' example_session)) =
     [txt_pending, txt_failed] \<and>
   txt_failed \<noteq> txt_pending"
  by code_simp




text \<open>
  Claim C3. Outside a run, a click on the start button with no ticked row, or with the
  output-to-source option off and an empty output folder, shows a warning and does nothing
  else: no process is created, the controls are not locked, and the file list, the rows,
  the mode and every other part of the window are as before.
\<close>

theorem start_rejected_without_change:
  assumes "\<not> m_isProcessing st"
    and "checked_tasks st = [] \<or> (\<not> outputToSource_checked st \<and> outputPath_text st = [])"
  shows "on_startProcessButton_clicked env st =
           st\<lparr>dialogs_shown := dialogs_shown st @
               [if checked_tasks st = [] then Warning txt_no_task_title txt_no_task_text
                else Warning txt_no_output_title txt_no_output_text]\<rparr> \<and>
         m_process (on_startProcessButton_clicked env st) = m_process st \<and>
         \<not> m_isProcessing (on_startProcessButton_clicked env st) \<and>
         enabled (on_startProcessButton_clicked env st) = enabled st \<and>
         startProcessButton_text (on_startProcessButton_clicked env st) =
           startProcessButton_text st \<and>
         m_fileList (on_startProcessButton_clicked env st) = m_fileList st \<and>
         table_rows (on_startProcessButton_clicked env st) = table_rows st \<and>
         useDirectoryMode_checked (on_startProcessButton_clicked env st) =
           useDirectoryMode_checked st \<and>
         plainText (on_startProcessButton_clicked env st) = plainText st"
  using assms by (auto simp: on_startProcessButton_clicked_def Let_def)

theorem start_rejected_without_change_witness:
  "\<not> m_isProcessing example_window \<and> checked_tasks example_window = [] \<and>
   on_startProcessButton_clicked example_environment example_window =
     example_window\<lparr>dialogs_shown := [Warning txt_no_task_title txt_no_task_text]\<rparr> \<and>
   m_process (on_startProcessButton_clicked example_environment example_window) = None \<and>
   \<not> m_isProcessing example_without_output \<and>
   checked_tasks example_without_output = [''/a/b.csv'', ''/a/c.csv''] \<and>
   \<not> outputToSource_checked example_without_output \<and>
   outputPath_text example_without_output = [] \<and>
   on_startProcessButton_clicked example_environment example_without_output =
     example_without_output\<lparr>dialogs_shown := [Warning txt_no_output_title txt_no_output_text]\<rparr> \<and>
   m_process (on_startProcessButton_clicked example_environment example_without_output) = None"
proof -
  have a: "\<not> m_isProcessing example_window" "checked_tasks example_window = []"
    "dialogs_shown example_window = []" "m_process example_window = None"
    by code_simp+
  have b: "\<not> m_isProcessing example_without_output"
    "checked_tasks example_without_output = [''/a/b.csv'', ''/a/c.csv'']"
    "\<not> outputToSource_checked example_without_output"
    "outputPath_text example_without_output = []"
    "dialogs_shown example_without_output = []" "m_process example_without_output = None"
    by code_simp+
  from a b
    start_rejected_without_change [of example_window example_environment]
    start_rejected_without_change [of example_without_output example_environment]
  show ?thesis by simp
qed




text \<open>
  Claim C5. With a non-empty table and the do-not-ask flag unset, a click on the mode check
  box that the user answers with "no" leaves the mode, the file list, every row and the
  do-not-ask flag (also the one that would be saved) as they were, whether or not the box
  "do not ask again" was ticked: only the timer restarts and the question is recorded as
  shown.
\<close>

theorem declined_mode_change_keeps_state:
  assumes "table_rows st \<noteq> []" and "\<not> m_dontAskOnModeChange st" and "exec_result ans = 1"
  shows "handleModeChangeRequest env now ans st =
           (if now - m_modeChangeDebounceTimer st < 300 then st
            else st\<lparr>m_modeChangeDebounceTimer := now,
                    dialogs_shown := dialogs_shown st @
                      [Question txt_confirm_title txt_confirm_text]\<rparr>) \<and>
         useDirectoryMode_checked (handleModeChangeRequest env now ans st) =
           useDirectoryMode_checked st \<and>
         m_fileList (handleModeChangeRequest env now ans st) = m_fileList st \<and>
         table_rows (handleModeChangeRequest env now ans st) = table_rows st \<and>
         \<not> m_dontAskOnModeChange (handleModeChangeRequest env now ans st) \<and>
         options_dontAskOnModeChange (saveSettings (handleModeChangeRequest env now ans st)) =
           Some False"
  using assms
  by (simp add: handleModeChangeRequest_def DEBOUNCE_INTERVAL_MS_def Let_def saveSettings_def)

theorem declined_mode_change_keeps_state_witness:
  "table_rows example_two_files \<noteq> [] \<and> \<not> m_dontAskOnModeChange example_two_files \<and>
   handleModeChangeRequest example_environment 1000
     \<lparr>exec_result = 1, dontAskAgain_checked = True\<rparr> example_two_files =
   example_two_files\<lparr>m_modeChangeDebounceTimer := 1000,
     dialogs_shown := [Question txt_confirm_title txt_confirm_text]\<rparr> \<and>
   \<not> m_dontAskOnModeChange (handleModeChangeRequest example_environment 1000
     \<lparr>exec_result = 1, dontAskAgain_checked = True\<rparr> example_two_files)"
proof -
  have a: "table_rows example_two_files \<noteq> []" "\<not> m_dontAskOnModeChange example_two_files"
    and b: "m_modeChangeDebounceTimer example_two_files = 0"
      "dialogs_shown example_two_files = []"
    by code_simp+
  from declined_mode_change_keeps_state [OF a, of "\<lparr>exec_result = 1, dontAskAgain_checked = True\<rparr>"
      example_environment 1000] a b
  show ?thesis by simp
qed

text \<open>
  Claim C6. When the process of a run ends with the exit status \<open>CrashExit\<close>, the status bar
  and the log report a cancelled run (texts of their own, not those of a failure, and no
  message box), every row whose status is the processing text gets the cancelled text,
  every other row is as before, the controls are unlocked and \<open>m_process\<close> is reset.
\<close>

theorem cancelled_run_outcome:
  assumes "m_process st = Some p"
  shows "\<exists>st'. onProcessFinished exitCode CrashExit st = Some st' \<and>
     statusBar_message st' = txt_bar_cancelled \<and>
     txt_bar_cancelled \<noteq> txt_bar_failure \<and> txt_bar_cancelled \<noteq> txt_bar_success \<and>
     plainText st' = appendPlainText txt_log_cancelled (plainText st) \<and>
     dialogs_shown st' = dialogs_shown st \<and>
     length (table_rows st') = length (table_rows st) \<and>
     (\<forall>i < length (table_rows st).
        table_rows st' ! i =
          (if status_text (table_rows st ! i) = txt_processing
           then (table_rows st ! i)\<lparr>status_text := txt_cancelled\<rparr>
           else table_rows st ! i)) \<and>
     txt_cancelled \<noteq> txt_processing \<and>
     m_process st' = None \<and> \<not> m_isProcessing st' \<and>
     startProcessButton_text st' = txt_btn_start \<and>
     useDirectoryModeCheckBox_enabled (enabled st') \<and>
     outputToSourceCheckBox_enabled (enabled st') \<and>
     conflictComboBox_enabled (enabled st') \<and>
     browseInputDirButton_enabled (enabled st') = useDirectoryMode_checked st \<and>
     inputDirPathLineEdit_enabled (enabled st') = useDirectoryMode_checked st \<and>
     refreshDirButton_enabled (enabled st') = useDirectoryMode_checked st \<and>
     addFilesButton_enabled (enabled st') = (\<not> useDirectoryMode_checked st) \<and>
     table_acceptDrops (enabled st') = (\<not> useDirectoryMode_checked st) \<and>
     removeSelectedButton_enabled (enabled st') = (table_rows st \<noteq> []) \<and>
     selectAllButton_enabled (enabled st') = (table_rows st \<noteq> []) \<and>
     invertSelectionButton_enabled (enabled st') = (table_rows st \<noteq> []) \<and>
     (\<not> outputToSource_checked st \<longrightarrow>
        outputPathLineEdit_enabled (enabled st') \<and> browseOutputButton_enabled (enabled st'))"
proof -
  have texts: "txt_bar_cancelled \<noteq> txt_bar_failure" "txt_bar_cancelled \<noteq> txt_bar_success"
    "txt_cancelled \<noteq> txt_processing"
    by (simp_all add: txt_bar_cancelled_def txt_bar_failure_def txt_bar_success_def
        txt_cancelled_def txt_processing_def)
  show ?thesis
    using assms texts
    by (simp add: onProcessFinished_def Let_def updateUiForProcessingState_def
        cancel_processing_rows_def)
qed

theorem cancelled_run_outcome_witness:
  "m_process example_processing \<noteq> None \<and>
   map status_text (table_rows example_processing) = [txt_processing, txt_done] \<and>
   onProcessFinished 9 CrashExit example_processing \<noteq> None \<and>
   status_text (table_rows (the (onProcessFinished 9 CrashExit example_processing)) ! 0) =
     txt_cancelled \<and>
   status_text (table_rows (the (onProcessFinished 9 CrashExit example_processing)) ! 1) =
     txt_done \<and>
   statusBar_message (the (onProcessFinished 9 CrashExit example_processing)) =
     txt_bar_cancelled \<and>
   m_process (the (onProcessFinished 9 CrashExit example_processing)) = None \<and>
   \<not> m_isProcessing (the (onProcessFinished 9 CrashExit example_processing)) \<and>
   outputPathLineEdit_enabled (enabled (the (onProcessFinished 9 CrashExit example_processing)))"
proof -
  have p: "m_process example_processing \<noteq> None"
    and s: "map status_text (table_rows example_processing) = [txt_processing, txt_done]"
    and o: "\<not> outputToSource_checked example_processing"
    by code_simp+
  from p obtain q where "m_process example_processing = Some q" by auto
  from cancelled_run_outcome [OF this, of 9] obtain st' where
    fin: "onProcessFinished 9 CrashExit example_processing = Some st'"
    and bar: "statusBar_message st' = txt_bar_cancelled"
    and rows: "\<forall>i < length (table_rows example_processing).
        table_rows st' ! i =
          (if status_text (table_rows example_processing ! i) = txt_processing
           then (table_rows example_processing ! i)\<lparr>status_text := txt_cancelled\<rparr>
           else table_rows example_processing ! i)"
    and diff: "txt_cancelled \<noteq> txt_processing"
    and rel: "m_process st' = None" "\<not> m_isProcessing st'"
    and out: "\<not> outputToSource_checked example_processing \<longrightarrow>
        outputPathLineEdit_enabled (enabled st') \<and> browseOutputButton_enabled (enabled st')"
    by blast
  from s have len: "length (table_rows example_processing) = 2"
    and s0: "status_text (table_rows example_processing ! 0) = txt_processing"
    and s1: "status_text (table_rows example_processing ! 1) = txt_done"
    by (auto simp: map_eq_Cons_conv)
  have d: "txt_done \<noteq> txt_processing"
    by (simp add: txt_done_def txt_processing_def)
  from rows len s0 have r0: "status_text (table_rows st' ! 0) = txt_cancelled" by simp
  from rows len s1 d have r1: "status_text (table_rows st' ! 1) = txt_done" by simp
  from p s fin bar r0 r1 rel out o show ?thesis by simp
qed

text \<open>
  Claim C7, evaluated on the example. The program that \<open>start\<close> is given ends with
  \<open>backend_engine.exe\<close> in every environment. After a failed launch the error box is
  shown, the controls are unlocked and \<open>m_process\<close> is reset, but the text of the box
  names \<open>main_processor.exe\<close> and does not contain \<open>backend_engine.exe\<close>. Every other
  error of the process leaves the window as it is.
\<close>

theorem launch_failure_names_other_program:
  "(\<exists>dir. programPath env = dir @ ''backend_engine.exe'') \<and>
   map_option program (m_process example_starting) =
     Some ''/opt/tool/backend_engine/backend_engine.exe'' \<and>
   dialogs_shown (onProcessError FailedToStart example_starting) =
     [Critical txt_start_failed_title txt_start_failed_text] \<and>
   contains_text txt_start_failed_text ''main_processor.exe'' \<and>
   \<not> contains_text txt_start_failed_text ''backend_engine.exe'' \<and>
   m_process (onProcessError FailedToStart example_starting) = None \<and>
   \<not> m_isProcessing (onProcessError FailedToStart example_starting) \<and>
   onProcessError Crashed st = st \<and> onProcessError Timedout st = st \<and>
   onProcessError ReadError st = st \<and> onProcessError WriteError st = st \<and>
   onProcessError UnknownError st = st"
proof (intro conjI)
  show "onProcessError Crashed st = st" "onProcessError Timedout st = st"
    "onProcessError ReadError st = st" "onProcessError WriteError st = st"
    "onProcessError UnknownError st = st"
    by (simp_all add: onProcessError_def)
  let ?dir = "toNativeSeparators (native_separator env)
      (applicationDirPath env @ ''/backend_engine/'')"
  have "programPath env = ?dir @ ''backend_engine.exe''"
    by (simp add: programPath_def toNativeSeparators_def)
  then show "\<exists>dir. programPath env = dir @ ''backend_engine.exe''"
    by (rule exI [where x = ?dir])
  show "map_option program (m_process example_starting) =
     Some ''/opt/tool/backend_engine/backend_engine.exe''"
    by code_simp
  show "dialogs_shown (onProcessError FailedToStart example_starting) =
     [Critical txt_start_failed_title txt_start_failed_text]"
    by code_simp
  show "contains_text txt_start_failed_text ''main_processor.exe''"
    by code_simp
  show "\<not> contains_text txt_start_failed_text ''backend_engine.exe''"
    by code_simp
  show "m_process (onProcessError FailedToStart example_starting) = None"
    by code_simp
  show "\<not> m_isProcessing (onProcessError FailedToStart example_starting)"
    by code_simp
qed

text \<open>
  Claim C8. After every sequence of events (files added by the dialog, dropped or found by a
  scan, rows removed, the list cleared by a change of mode) no two rows of the table have
  the same path. Adding a path that is present changes nothing and leaves exactly one row
  of that path; adding a path that is absent appends one row, with the pending status.
\<close>

theorem file_set_has_no_duplicates:
  assumes "run evs (MainWindow env cfg now) = Some st"
  shows "distinct (map path_text (table_rows st)) \<and>
    (p \<in> set (map path_text (table_rows st)) \<longrightarrow>
       addFileToList p st = st \<and>
       length (filter (\<lambda>r. path_text r = p) (table_rows (addFileToList p st))) = 1) \<and>
    (p \<notin> set (map path_text (table_rows st)) \<longrightarrow>
       table_rows (addFileToList p st) = table_rows st @ [new_row p] \<and>
       m_fileList (addFileToList p st) = m_fileList st @ [p] \<and>
       path_text (new_row p) = p \<and> status_text (new_row p) = txt_pending)"
proof -
  from run_matches [OF MainWindow_matches assms]
  have eq: "m_fileList st = map path_text (table_rows st)"
    and d: "distinct (map path_text (table_rows st))"
    by (simp_all add: list_matches_table_def)
  have one: "length (filter (\<lambda>r. path_text r = p) rows) = 1"
    if "distinct (map path_text rows)" "p \<in> set (map path_text rows)" for rows
    using that by (induction rows) (auto simp: filter_empty_conv image_iff)
  show ?thesis
    using eq d one [OF d] by (simp add: addFileToList_def new_row_def)
qed

theorem file_set_has_no_duplicates_witness:
  "run (at_example example_file_events) example_window \<noteq> None \<and>
   distinct (map path_text (table_rows (the (run (at_example example_file_events) example_window)))) \<and>
   ''/data/x.csv'' \<in> set (map path_text
      (table_rows (the (run (at_example example_file_events) example_window)))) \<and>
   addFileToList ''/data/x.csv'' (the (run (at_example example_file_events) example_window)) =
     the (run (at_example example_file_events) example_window) \<and>
   ''/a/b.csv'' \<notin> set (map path_text
      (table_rows (the (run (at_example example_file_events) example_window)))) \<and>
   map path_text (table_rows (addFileToList ''/a/b.csv''
      (the (run (at_example example_file_events) example_window)))) =
     [''/data/x.csv'', ''/a/b.csv'']"
proof -
  let ?st = "the (run (at_example example_file_events) example_window)"
  have r: "run (at_example example_file_events) example_window \<noteq> None"
    by code_simp
  then have st: "run (at_example example_file_events)
      (MainWindow example_environment example_settings 0) = Some ?st"
    by (auto simp: example_window_def)
  have paths: "map path_text (table_rows ?st) = [''/data/x.csv'']"
    by code_simp
  from file_set_has_no_duplicates [OF st, of "''/data/x.csv''"]
       file_set_has_no_duplicates [OF st, of "''/a/b.csv''"] r paths
  show ?thesis by simp
qed

text \<open>
  Claim C9, as the code has it. Each chunk of output is cut into lines by itself: nothing is
  kept from one readiness notification to the next. When no boundary between two chunks
  falls inside a line (every chunk is empty, or is followed by nothing, or ends with a
  newline, or is followed by a newline), handling the chunks one after the other gives the
  same rows and the same log as handling the whole stream at once. Such a boundary does
  not fall inside a character either, so the chunks of well-formed text are well-formed.
\<close>

theorem chunks_between_lines:
  assumes "lines_not_cut chunks"
  shows "fold readProcessOutput chunks st = readProcessOutput (concat chunks) st"
  using assms
proof (induction chunks arbitrary: st)
  case Nil
  show ?case by simp
next
  case (Cons c cs)
  then have c: "c = [] \<or> concat cs = [] \<or> last c = newline \<or> hd (concat cs) = newline"
    and rest: "lines_not_cut cs"
    by simp_all
  have "fold readProcessOutput (c # cs) st = fold readProcessOutput cs (readProcessOutput c st)"
    by simp
  also have "\<dots> = readProcessOutput (concat cs) (readProcessOutput c st)"
    using rest by (rule Cons.IH)
  also have "\<dots> = readProcessOutput (c @ concat cs) st"
    using c by (rule readProcessOutput_between_lines)
  finally show ?case by simp
qed

theorem chunks_between_lines_witness:
  "fold readProcessOutput
     [''##STATUS##|/a/b.csv|SUCCESS|done\<newline>'', [], ''first'', ''\<newline>second\<newline>'', ''tail'']
     example_session =
   readProcessOutput
     ''##STATUS##|/a/b.csv|SUCCESS|done\<newline>first\<newline>second\<newline>tail'' example_session \<and>
   plainText (fold readProcessOutput
     [''##STATUS##|/a/b.csv|SUCCESS|done\<newline>'', [], ''first'', ''\<newline>second\<newline>'', ''tail'']
     example_session) =
   plainText example_session @ ''first\<newline>second\<newline>tail\<newline>''"
proof -
  let ?chunks =
    "[''##STATUS##|/a/b.csv|SUCCESS|done\<newline>'', [], ''first'', ''\<newline>second\<newline>'', ''tail'']"
  have "lines_not_cut ?chunks"
    by (simp add: newline_def)
  from chunks_between_lines [OF this, of example_session]
  have eq: "fold readProcessOutput ?chunks example_session =
    readProcessOutput
      ''##STATUS##|/a/b.csv|SUCCESS|done\<newline>first\<newline>second\<newline>tail'' example_session"
    by simp
  have "plainText (readProcessOutput
      ''##STATUS##|/a/b.csv|SUCCESS|done\<newline>first\<newline>second\<newline>tail'' example_session) =
    plainText example_session @ ''first\<newline>second\<newline>tail\<newline>''"
    by code_simp
  with eq show ?thesis by simp
qed

theorem chunk_boundaries_counterexample:
  "\<not> lines_not_cut [''hel'', ''lo\<newline>''] \<and>
   concat [''hel'', ''lo\<newline>''] = ''hello\<newline>'' \<and>
   plainText (readProcessOutput ''hello\<newline>'' example_session) =
     plainText example_session @ ''hello\<newline>'' \<and>
   plainText (fold readProcessOutput [''hel'', ''lo\<newline>''] example_session) =
     plainText example_session @ ''hel\<newline>lo\<newline>'' \<and>
   fold readProcessOutput [''hel'', ''lo\<newline>''] example_session \<noteq>
     readProcessOutput (concat [''hel'', ''lo\<newline>'']) example_session \<and>
   concat [''##STATUS##|/a/b.csv|SUCC'', ''ESS|done\<newline>''] =
     ''##STATUS##|/a/b.csv|SUCCESS|done\<newline>'' \<and>
   map status_text (table_rows
     (readProcessOutput ''##STATUS##|/a/b.csv|SUCCESS|done\<newline>'' example_session)) =
     [txt_done, txt_pending] \<and>
   map status_text (table_rows
     (fold readProcessOutput [''##STATUS##|/a/b.csv|SUCC'', ''ESS|done\<newline>'']
        example_session)) = [txt_pending, txt_pending] \<and>
   txt_done \<noteq> txt_pending"
  by code_simp

text \<open>
  Claim C10. After every sequence of events that the window handles, the internal path list
  \<open>m_fileList\<close> is, element for element and in the same order, the list of the texts of
  the path column of the table.
\<close>

theorem file_list_mirrors_table:
  assumes "run evs (MainWindow env cfg now) = Some st"
  shows "m_fileList st = map path_text (table_rows st)"
  using run_matches [OF MainWindow_matches assms] by (simp add: list_matches_table_def)

theorem file_list_mirrors_table_witness:
  "run (at_example example_file_events) example_window \<noteq> None \<and>
   m_fileList (the (run (at_example example_file_events) example_window)) = [''/data/x.csv''] \<and>
   map path_text (table_rows (the (run (at_example example_file_events) example_window))) =
     [''/data/x.csv'']"
proof -
  have r: "run (at_example example_file_events) example_window \<noteq> None"
    by code_simp
  then obtain st where st: "run (at_example example_file_events)
      (MainWindow example_environment example_settings 0) = Some st"
    by (auto simp: example_window_def)
  have l: "m_fileList (the (run (at_example example_file_events) example_window)) =
      [''/data/x.csv'']"
    by code_simp
  from file_list_mirrors_table [OF st] st l r show ?thesis
    by (simp add: example_window_def)
qed

end
